theory Spec2Isabelle
  imports Complex_Main
begin

section \<open>Python values\<close>

text \<open>
  The tool computes with Python floats and unbounded integers. A float is a double, that
  is a real number; the variables of the application hold reals. The comparisons the
  code makes (\<open>frames >= 0\<close>, \<open>delay_ms > 0\<close>) and \<open>abs\<close> are exact on doubles. The
  division and the multiplication of \<open>frames_to_ms\<close> are not: each result is rounded to
  the nearest double, ties to the even mantissa, as IEEE 754 prescribes. Integers are
  \<open>int\<close>.
\<close>

datatype py_error = ZeroDivisionError | ValueError

text \<open>Python 3's one-argument \<open>round\<close>: to the nearest integer, ties to the even one.\<close>

definition py_round :: "real \<Rightarrow> int" where
  "py_round x =
     (let f = \<lfloor>x\<rfloor>; d = x - of_int f
      in if d < 1 / 2 then f
         else if 1 / 2 < d then f + 1
         else if even f then f else f + 1)"

text \<open>
  The binary exponent of a positive real: \<open>2 ^ expo x \<le> x < 2 ^ (expo x + 1)\<close>.
\<close>

function expo :: "real \<Rightarrow> int" where
  "expo x =
     (if x \<le> 0 then 0
      else if 2 \<le> x then expo (x / 2) + 1
      else if x < 1 then expo (x * 2) - 1
      else 0)"
  by pat_completeness auto

termination
proof (relation "measure (\<lambda>x. nat \<bar>\<lfloor>log 2 x\<rfloor>\<bar>)")
  show "wf (measure (\<lambda>x. nat \<bar>\<lfloor>log 2 x\<rfloor>\<bar>))"
    by simp
next
  fix x :: real
  assume "\<not> x \<le> 0" and x: "2 \<le> x"
  then have l: "log 2 (x / 2) = log 2 x - 1"
    by (simp add: log_divide)
  from x have "log 2 2 \<le> log 2 x"
    by (subst log_le_cancel_iff) simp_all
  then have "1 \<le> \<lfloor>log 2 x\<rfloor>"
    by (simp add: le_floor_iff)
  moreover have "\<lfloor>log 2 (x / 2)\<rfloor> = \<lfloor>log 2 x\<rfloor> - 1"
    unfolding l by linarith
  ultimately show "(x / 2, x) \<in> measure (\<lambda>x. nat \<bar>\<lfloor>log 2 x\<rfloor>\<bar>)"
    by simp
next
  fix x :: real
  assume p: "\<not> x \<le> 0" and x: "x < 1"
  then have l: "log 2 (x * 2) = log 2 x + 1"
    by (simp add: log_mult)
  from p x have "log 2 x < 0"
    by simp
  then have "\<lfloor>log 2 x\<rfloor> \<le> - 1"
    by (simp add: floor_le_iff)
  moreover have "\<lfloor>log 2 (x * 2)\<rfloor> = \<lfloor>log 2 x\<rfloor> + 1"
    unfolding l by linarith
  ultimately show "(x * 2, x) \<in> measure (\<lambda>x. nat \<bar>\<lfloor>log 2 x\<rfloor>\<bar>)"
    by simp
qed

declare expo.simps [simp del]

text \<open>
  A double has a mantissa of 53 bits: the doubles next to \<open>x\<close> are the multiples of
  \<open>ulp x\<close>, and \<open>round_double x\<close> is the nearest of them, ties to the even multiple. The
  exponent is not bounded here: for magnitudes between \<open>2 ^ -1022\<close> and \<open>2 ^ 1024\<close>, all
  that frame counts and frame rates give, this is the rounding of IEEE 754 binary64.
\<close>

definition ulp :: "real \<Rightarrow> real" where
  "ulp x = 2 powi (expo \<bar>x\<bar> - 52)"

definition round_double :: "real \<Rightarrow> real" where
  "round_double x = real_of_int (py_round (x / ulp x)) * ulp x"

text \<open>
  Python's \<open>a / b\<close> on floats raises ZeroDivisionError when \<open>b\<close> is zero and returns the
  double nearest to the quotient otherwise; \<open>a * b\<close> returns the double nearest to the
  product.
\<close>

definition py_truediv :: "real \<Rightarrow> real \<Rightarrow> py_error + real" where
  "py_truediv a b = (if b = 0 then Inl ZeroDivisionError else Inr (round_double (a / b)))"

definition py_mul :: "real \<Rightarrow> real \<Rightarrow> real" where
  "py_mul a b = round_double (a * b)"

text \<open>The literal \<open>1e-6\<close>: the double nearest to one millionth.\<close>

definition fps_floor :: real where
  "fps_floor = round_double (1 / 1000000)"

text \<open>Python's \<open>int\<close> on a float truncates towards zero.\<close>

definition py_int :: "real \<Rightarrow> int" where
  "py_int x = (if 0 \<le> x then \<lfloor>x\<rfloor> else \<lceil>x\<rceil>)"

section \<open>Audio backends\<close>

text \<open>
  The module-level flags \<open>USE_WINSOUND\<close> and \<open>SIMPLEAUDIO_AVAILABLE\<close> are fixed at import
  time. What the host libraries do when called is the environment's choice:
  whether \<open>winsound.Beep\<close> raises inside its daemon thread, whether
  \<open>sa.play_buffer\<close> raises, and whether \<open>messagebox.showwarning\<close> raises.
\<close>

record audio_env =
  USE_WINSOUND :: bool
  SIMPLEAUDIO_AVAILABLE :: bool
  winsound_beep_raises :: bool
  play_buffer_raises :: bool
  showwarning_raises :: bool

text \<open>
  \<open>play_beep(freq, duration_ms, volume)\<close>. With winsound the beep runs in a daemon thread
  and True is returned at once, whatever happens in the thread. With simpleaudio the
  samples are built outside the \<open>try\<close>: \<open>np.linspace\<close> raises ValueError for a negative
  number of samples; only \<open>sa.play_buffer\<close> is guarded.
\<close>

definition play_beep :: "audio_env \<Rightarrow> int \<Rightarrow> int \<Rightarrow> real \<Rightarrow> py_error + bool" where
  "play_beep env freq duration_ms volume =
     (if USE_WINSOUND env then Inr True
      else if SIMPLEAUDIO_AVAILABLE env then
        (if py_int (44100 * (real_of_int duration_ms / 1000)) < 0 then Inl ValueError
         else if play_buffer_raises env then Inr False
         else Inr True)
      else Inr False)"

section \<open>The application state\<close>

datatype callback =
    Cb_flash_on
  | Cb_flash_off
  | Cb_do_beep
  | Cb_show_step int nat
  | Cb_repeat_tick

text \<open>
  \<open>root.after(ms, f)\<close> takes milliseconds; \<open>threading.Timer(s, f)\<close> takes seconds. The
  code passes \<open>delay_ms / 1000.0\<close>; a timer keeps that number of seconds as the quotient
  itself, so that its delay reads back in milliseconds as the integer it came from.
\<close>

datatype delay = Root_after int | Thread_timer real

fun delay_in_ms :: "delay \<Rightarrow> real" where
  "delay_in_ms (Root_after ms) = real_of_int ms"
| "delay_in_ms (Thread_timer s) = s * 1000"

record timer =
  t_id :: nat
  t_delay :: delay
  t_cb :: callback

text \<open>What the user can observe: widget updates, calls of \<open>play_beep\<close>, warning dialogs.\<close>

datatype ui_output =
    Canvas_bg string
  | Center_text string
  | Next_label "int option"
  | Play_beep int int real
  | Warning_dialog
  | Delay_label_refresh
  | Info_text_refresh

text \<open>
  \<open>threading.Timer\<close> runs \<open>_repeat_tick\<close> on a thread of its own, beside the event
  loop. Such a thread is somewhere in the tick: before the check of \<open>_running_repeat\<close> in
  \<open>_repeat_tick\<close>, before \<open>run_test\<close>, before the check in \<open>_schedule_next_repeat\<close>, or
  before the statements that create and start the next timer.
\<close>

datatype tick_pc = At_guard | At_test | At_reschedule | At_arm

record world =
  fps_var :: real
  base_frames_var :: real
  rounded_frames_var :: int
  audio_delay_frames_var :: real
  delay_target_var :: string
  tone_freq_var :: int
  tone_ms_var :: int
  flash_ms_var :: int
  repeat_var :: bool
  repeat_interval_ms_var :: int
  countdown_var :: bool
  countdown_step_ms_var :: int
  countdown_beeps_var :: bool
  repeat_timer :: "nat option"
  running_repeat :: bool
  tick_threads :: "tick_pc list"
  next_id :: nat
  pending :: "timer list"
  trace :: "ui_output list"

definition flash_bg_normal :: string where
  "flash_bg_normal = ''#111111''"

definition flash_bg_active :: string where
  "flash_bg_active = ''#33cc33''"

text \<open>The state \<open>__init__\<close> sets up, before any event.\<close>

definition init_world :: world where
  "init_world =
     \<lparr> fps_var = 24, base_frames_var = 81 / 4, rounded_frames_var = 21,
       audio_delay_frames_var = 0, delay_target_var = ''Audio'',
       tone_freq_var = 1000, tone_ms_var = 150, flash_ms_var = 150,
       repeat_var = False, repeat_interval_ms_var = 1000,
       countdown_var = False, countdown_step_ms_var = 700, countdown_beeps_var = True,
       repeat_timer = None, running_repeat = False, tick_threads = [],
       next_id = 0, pending = [], trace = [] \<rparr>"

text \<open>
  A call either returns or raises; in both cases the state changes made so far stay.
\<close>

datatype outcome = Returned world | Raised py_error world

fun world_of :: "outcome \<Rightarrow> world" where
  "world_of (Returned w) = w"
| "world_of (Raised e w) = w"

fun and_then :: "outcome \<Rightarrow> (world \<Rightarrow> outcome) \<Rightarrow> outcome" where
  "and_then (Returned w) f = f w"
| "and_then (Raised e w) f = Raised e w"

definition emit :: "ui_output \<Rightarrow> world \<Rightarrow> world" where
  "emit out w = w\<lparr>trace := trace w @ [out]\<rparr>"

definition add_timer :: "delay \<Rightarrow> callback \<Rightarrow> world \<Rightarrow> world" where
  "add_timer d cb w =
     w\<lparr>next_id := Suc (next_id w),
       pending := pending w @ [\<lparr>t_id = next_id w, t_delay = d, t_cb = cb\<rparr>]\<rparr>"

definition cancel_timer :: "nat \<Rightarrow> world \<Rightarrow> world" where
  "cancel_timer tid w = w\<lparr>pending := filter (\<lambda>t. t_id t \<noteq> tid) (pending w)\<rparr>"

section \<open>The methods of SyncApp\<close>

definition frames_to_ms :: "world \<Rightarrow> real \<Rightarrow> py_error + real" where
  "frames_to_ms w frames =
     (let fps = max (fps_var w) fps_floor
      in case py_truediv frames fps of
           Inl e \<Rightarrow> Inl e
         | Inr q \<Rightarrow> Inr (py_mul 1000 q))"

text \<open>
  \<open>_update_info_text\<close> and \<open>_update_labels\<close> format text for two widgets. The text is not
  modelled, the calls of \<open>frames_to_ms\<close> that build it are.
\<close>

definition update_info_text :: "world \<Rightarrow> outcome" where
  "update_info_text w =
     (let adjust = audio_delay_frames_var w
      in case frames_to_ms w \<bar>adjust\<bar> of
           Inl e \<Rightarrow> Raised e w
         | Inr latency_ms \<Rightarrow>
             (case frames_to_ms w adjust of
                Inl e \<Rightarrow> Raised e w
              | Inr ms \<Rightarrow> Returned (emit Info_text_refresh w)))"

definition update_labels :: "world \<Rightarrow> outcome" where
  "update_labels w =
     (let frames = audio_delay_frames_var w
      in case frames_to_ms w frames of
           Inl e \<Rightarrow> Raised e w
         | Inr ms \<Rightarrow> update_info_text (emit Delay_label_refresh w))"

definition nudge_delay :: "real \<Rightarrow> world \<Rightarrow> outcome" where
  "nudge_delay delta_frames w =
     update_labels (w\<lparr>audio_delay_frames_var := audio_delay_frames_var w + delta_frames\<rparr>)"

definition flash_on :: "world \<Rightarrow> outcome" where
  "flash_on w =
     Returned (add_timer (Root_after (flash_ms_var w)) Cb_flash_off
       (emit (Center_text ''FLASH'') (emit (Canvas_bg flash_bg_active) w)))"

definition flash_off :: "world \<Rightarrow> outcome" where
  "flash_off w = Returned (emit (Center_text '''') (emit (Canvas_bg flash_bg_normal) w))"

definition do_beep :: "audio_env \<Rightarrow> int option \<Rightarrow> int option \<Rightarrow> real \<Rightarrow> world \<Rightarrow> outcome" where
  "do_beep env freq dur vol w =
     (let freq' = (case freq of None \<Rightarrow> max 50 (tone_freq_var w) | Some f \<Rightarrow> f);
          dur' = (case dur of None \<Rightarrow> max 20 (tone_ms_var w) | Some d \<Rightarrow> d);
          w1 = emit (Play_beep freq' dur' vol) w
      in case play_beep env freq' dur' vol of
           Inl e \<Rightarrow> Raised e w1
         | Inr ok \<Rightarrow>
             if \<not> ok then
               (if showwarning_raises env then Returned w1
                else Returned (emit Warning_dialog w1))
             else Returned w1)"

definition perform_test_events :: "audio_env \<Rightarrow> world \<Rightarrow> outcome" where
  "perform_test_events env w =
     (let frames = audio_delay_frames_var w
      in case frames_to_ms w \<bar>frames\<bar> of
           Inl e \<Rightarrow> Raised e w
         | Inr ms \<Rightarrow>
             (let delay_ms = py_round ms;
                  target = delay_target_var w
              in if target = ''Audio'' then
                   (if frames \<ge> 0 then
                      and_then (flash_on w) (\<lambda>w1.
                        if delay_ms > 0
                        then Returned (add_timer (Thread_timer (real_of_int delay_ms / 1000)) Cb_do_beep w1)
                        else do_beep env None None (1 / 5) w1)
                    else
                      and_then (do_beep env None None (1 / 5) w) (\<lambda>w1.
                        Returned (add_timer (Root_after \<bar>delay_ms\<bar>) Cb_flash_on w1)))
                 else
                   (if frames \<ge> 0 then
                      and_then (do_beep env None None (1 / 5) w) (\<lambda>w1.
                        if delay_ms > 0
                        then Returned (add_timer (Root_after delay_ms) Cb_flash_on w1)
                        else flash_on w1)
                    else
                      and_then (flash_on w) (\<lambda>w1.
                        if delay_ms > 0
                        then Returned (add_timer (Thread_timer (real_of_int delay_ms / 1000)) Cb_do_beep w1)
                        else do_beep env None None (1 / 5) w1))))"

definition seq :: "string list" where
  "seq = [''3'', ''2'', ''1'']"

definition freqs :: "int list" where
  "freqs = [600, 700, 800]"

text \<open>
  The closure \<open>show_step(i)\<close> inside \<open>_run_with_countdown\<close>; \<open>step\<close> is the value captured
  when the countdown started. The next step is a timer, not a recursive call.
\<close>

definition show_step :: "audio_env \<Rightarrow> int \<Rightarrow> nat \<Rightarrow> world \<Rightarrow> outcome" where
  "show_step env step i w =
     (if i \<ge> length seq then
        perform_test_events env (emit (Center_text '''') w)
      else
        (let w1 = emit (Center_text (seq ! i)) (emit (Canvas_bg flash_bg_normal) w)
         in and_then
              (if countdown_beeps_var w1
               then do_beep env (Some (freqs ! i)) (Some 90) (3 / 20) w1
               else Returned w1)
              (\<lambda>w2. Returned (add_timer (Root_after step) (Cb_show_step step (i + 1)) w2))))"

definition run_with_countdown :: "audio_env \<Rightarrow> world \<Rightarrow> outcome" where
  "run_with_countdown env w =
     (let step = max 200 (countdown_step_ms_var w) in show_step env step 0 w)"

definition run_test :: "audio_env \<Rightarrow> world \<Rightarrow> outcome" where
  "run_test env w =
     (if countdown_var w then run_with_countdown env w else perform_test_events env w)"

text \<open>
  The statements of \<open>_schedule_next_repeat\<close> after its check: the interval, the label,
  the new timer stored in \<open>_repeat_timer\<close> and started.
\<close>

definition arm_repeat_timer :: "world \<Rightarrow> world" where
  "arm_repeat_timer w =
     (let interval = max 200 (repeat_interval_ms_var w);
          w1 = emit (Next_label (Some interval)) w;
          w2 = add_timer (Thread_timer (real_of_int interval / 1000)) Cb_repeat_tick w1
      in w2\<lparr>repeat_timer := Some (next_id w1)\<rparr>)"

definition schedule_next_repeat :: "world \<Rightarrow> outcome" where
  "schedule_next_repeat w =
     (if \<not> running_repeat w then Returned w
      else Returned (arm_repeat_timer w))"

definition toggle_repeat :: "world \<Rightarrow> outcome" where
  "toggle_repeat w =
     (if repeat_var w then schedule_next_repeat (w\<lparr>running_repeat := True\<rparr>)
      else
        (let w1 = w\<lparr>running_repeat := False\<rparr>;
             w2 = (case repeat_timer w1 of
                     None \<Rightarrow> w1
                   | Some tid \<Rightarrow> (cancel_timer tid w1)\<lparr>repeat_timer := None\<rparr>)
         in Returned (emit (Next_label None) w2)))"

text \<open>
  \<open>try: self.run_test() finally: self._schedule_next_repeat()\<close>, when nothing else runs
  in between.
\<close>

definition repeat_tick :: "audio_env \<Rightarrow> world \<Rightarrow> outcome" where
  "repeat_tick env w =
     (if \<not> running_repeat w then Returned w
      else
        (case run_test env w of
           Returned w1 \<Rightarrow> schedule_next_repeat w1
         | Raised e w1 \<Rightarrow>
             (case schedule_next_repeat w1 of
                Returned w2 \<Rightarrow> Raised e w2
              | Raised e' w2 \<Rightarrow> Raised e' w2)))"

section \<open>The event loop and the tick threads\<close>

text \<open>
  The callbacks of \<open>root.after\<close> run on the event loop, one at a time. The expiry of a
  repeat timer starts a thread at the head of \<open>_repeat_tick\<close>; the thread then advances
  by \<open>tick_step\<close>, and clicks and other callbacks may come between its steps.
\<close>

fun run_callback :: "audio_env \<Rightarrow> callback \<Rightarrow> world \<Rightarrow> outcome" where
  "run_callback env Cb_flash_on w = flash_on w"
| "run_callback env Cb_flash_off w = flash_off w"
| "run_callback env Cb_do_beep w = do_beep env None None (1 / 5) w"
| "run_callback env (Cb_show_step step i) w = show_step env step i w"
| "run_callback env Cb_repeat_tick w = Returned (w\<lparr>tick_threads := tick_threads w @ [At_guard]\<rparr>)"

text \<open>
  A pending timer expires: it leaves the pending list and its callback runs. A timer that
  was cancelled, or has fired already, is no longer pending and nothing happens.
\<close>

definition fire :: "audio_env \<Rightarrow> nat \<Rightarrow> world \<Rightarrow> outcome" where
  "fire env tid w =
     (case find (\<lambda>t. t_id t = tid) (pending w) of
        None \<Rightarrow> Returned w
      | Some t \<Rightarrow> run_callback env (t_cb t) (cancel_timer tid w))"

definition end_thread :: "nat \<Rightarrow> world \<Rightarrow> world" where
  "end_thread i w = w\<lparr>tick_threads := take i (tick_threads w) @ drop (Suc i) (tick_threads w)\<rparr>"

definition move_thread :: "nat \<Rightarrow> tick_pc \<Rightarrow> world \<Rightarrow> world" where
  "move_thread i pc w = w\<lparr>tick_threads := (tick_threads w)[i := pc]\<rparr>"

text \<open>
  One step of the tick thread number \<open>i\<close>. Each check reads \<open>_running_repeat\<close> as it is at
  that moment and returns from the tick when it is off. An exception of \<open>run_test\<close> does
  not skip the \<open>finally\<close> part; it ends the thread after it, with no further effect.
\<close>

definition tick_step :: "audio_env \<Rightarrow> nat \<Rightarrow> world \<Rightarrow> world" where
  "tick_step env i w =
     (if length (tick_threads w) \<le> i then w
      else
        (case tick_threads w ! i of
           At_guard \<Rightarrow>
             if \<not> running_repeat w then end_thread i w else move_thread i At_test w
         | At_test \<Rightarrow> move_thread i At_reschedule (world_of (run_test env w))
         | At_reschedule \<Rightarrow>
             if \<not> running_repeat w then end_thread i w else move_thread i At_arm w
         | At_arm \<Rightarrow> end_thread i (arm_repeat_timer w)))"

section \<open>User input\<close>

text \<open>
  The "Repeat test" Checkbutton inverts \<open>repeat_var\<close> and then calls its command,
  \<open>_toggle_repeat\<close>.
\<close>

definition click_repeat :: "world \<Rightarrow> outcome" where
  "click_repeat w = toggle_repeat (w\<lparr>repeat_var := \<not> repeat_var w\<rparr>)"

text \<open>
  The delay slider is created with \<open>from_=-80.0, to=80.0\<close>, bound to
  \<open>audio_delay_frames_var\<close>, with \<open>command=self._update_labels\<close>. The widget belongs to
  the toolkit: moving it stores a value between \<open>from_\<close> and \<open>to\<close> in the variable and
  calls the command.
\<close>

definition delay_scale_from :: real where
  "delay_scale_from = - 80"

definition delay_scale_to :: real where
  "delay_scale_to = 80"

definition delay_scale_moved :: "real \<Rightarrow> world \<Rightarrow> outcome" where
  "delay_scale_moved v w =
     update_labels (w\<lparr>audio_delay_frames_var := max delay_scale_from (min delay_scale_to v)\<rparr>)"

text \<open>Editing the settings through their entry widgets.\<close>

definition set_test_vars :: "real \<Rightarrow> string \<Rightarrow> real \<Rightarrow> world \<Rightarrow> world" where
  "set_test_vars frames target fps w =
     w\<lparr>audio_delay_frames_var := frames, delay_target_var := target, fps_var := fps\<rparr>"

definition set_base_vars :: "real \<Rightarrow> int \<Rightarrow> world \<Rightarrow> world" where
  "set_base_vars base rounded w = w\<lparr>base_frames_var := base, rounded_frames_var := rounded\<rparr>"

definition set_tone_vars :: "int \<Rightarrow> int \<Rightarrow> int \<Rightarrow> world \<Rightarrow> world" where
  "set_tone_vars freq tone_ms flash_ms w =
     w\<lparr>tone_freq_var := freq, tone_ms_var := tone_ms, flash_ms_var := flash_ms\<rparr>"

definition set_countdown_vars :: "bool \<Rightarrow> int \<Rightarrow> bool \<Rightarrow> world \<Rightarrow> world" where
  "set_countdown_vars enabled step beeps w =
     w\<lparr>countdown_var := enabled, countdown_step_ms_var := step, countdown_beeps_var := beeps\<rparr>"

definition set_repeat_interval :: "int \<Rightarrow> world \<Rightarrow> world" where
  "set_repeat_interval ms w = w\<lparr>repeat_interval_ms_var := ms\<rparr>"

text \<open>
  What can happen to the running application, one event at a time: a pending timer
  expires, a tick thread takes a step, the user presses Space or the Test button, clicks
  the repeat box, presses an arrow key, moves the slider or edits any of the settings.
  An exception raised by a callback is reported by the toolkit and the loop goes on with
  the state as it is.
\<close>

datatype action =
    Fire nat
  | Tick_step nat
  | Press_test
  | Click_repeat
  | Nudge real
  | Move_slider real
  | Edit_test_vars real string real
  | Edit_base_vars real int
  | Edit_tone_vars int int int
  | Edit_countdown_vars bool int bool
  | Edit_repeat_interval int

fun do_action :: "audio_env \<Rightarrow> action \<Rightarrow> world \<Rightarrow> outcome" where
  "do_action env (Fire tid) w = fire env tid w"
| "do_action env (Tick_step i) w = Returned (tick_step env i w)"
| "do_action env Press_test w = run_test env w"
| "do_action env Click_repeat w = click_repeat w"
| "do_action env (Nudge d) w = nudge_delay d w"
| "do_action env (Move_slider v) w = delay_scale_moved v w"
| "do_action env (Edit_test_vars frames target fps) w = Returned (set_test_vars frames target fps w)"
| "do_action env (Edit_base_vars base rounded) w = Returned (set_base_vars base rounded w)"
| "do_action env (Edit_tone_vars freq tone_ms flash_ms) w
     = Returned (set_tone_vars freq tone_ms flash_ms w)"
| "do_action env (Edit_countdown_vars enabled step beeps) w
     = Returned (set_countdown_vars enabled step beeps w)"
| "do_action env (Edit_repeat_interval ms) w = Returned (set_repeat_interval ms w)"

fun run_actions :: "audio_env \<Rightarrow> action list \<Rightarrow> world \<Rightarrow> world" where
  "run_actions env [] w = w"
| "run_actions env (a # as) w = run_actions env as (world_of (do_action env a w))"

section \<open>Observing a call\<close>

text \<open>
  A flash event is \<open>_flash_on\<close> running (the canvas turns to the active colour) or being
  scheduled; a beep event is \<open>_do_beep\<close> calling \<open>play_beep\<close> or being scheduled. What a
  call did is read off the outputs and the timers it added: the direct calls happened
  during the call, in the order of the trace, and the timers expire after it.
\<close>

datatype event = Flash | Beep

fun output_event :: "ui_output \<Rightarrow> event option" where
  "output_event (Canvas_bg c) = (if c = flash_bg_active then Some Flash else None)"
| "output_event (Play_beep f d v) = Some Beep"
| "output_event _ = None"

fun callback_event :: "callback \<Rightarrow> event option" where
  "callback_event Cb_flash_on = Some Flash"
| "callback_event Cb_do_beep = Some Beep"
| "callback_event _ = None"

definition new_outputs :: "world \<Rightarrow> world \<Rightarrow> ui_output list" where
  "new_outputs w w' = drop (length (trace w)) (trace w')"

definition new_timers :: "world \<Rightarrow> world \<Rightarrow> timer list" where
  "new_timers w w' = drop (length (pending w)) (pending w')"

definition direct_events :: "world \<Rightarrow> world \<Rightarrow> event list" where
  "direct_events w w' = List.map_filter output_event (new_outputs w w')"

definition scheduled_events :: "world \<Rightarrow> world \<Rightarrow> (event \<times> delay) list" where
  "scheduled_events w w' =
     List.map_filter
       (\<lambda>t. case callback_event (t_cb t) of None \<Rightarrow> None | Some ev \<Rightarrow> Some (ev, t_delay t))
       (new_timers w w')"

definition emitted :: "world \<Rightarrow> world \<Rightarrow> event list" where
  "emitted w w' = direct_events w w' @ map fst (scheduled_events w w')"

text \<open>The gap between the two events of a test: the delay of the scheduled one, if any.\<close>

definition separation_ms :: "world \<Rightarrow> world \<Rightarrow> real" where
  "separation_ms w w' =
     (case scheduled_events w w' of [] \<Rightarrow> 0 | (ev, d) # _ \<Rightarrow> delay_in_ms d)"

text \<open>No repeat tick is waiting to expire.\<close>

definition no_pending_tick :: "world \<Rightarrow> bool" where
  "no_pending_tick w = list_all (\<lambda>t. t_cb t \<noteq> Cb_repeat_tick) (pending w)"

text \<open>The outputs of one call of \<open>_do_beep\<close> that reaches \<open>play_beep\<close> without an exception.\<close>

definition beep_trace :: "audio_env \<Rightarrow> int \<Rightarrow> int \<Rightarrow> real \<Rightarrow> ui_output list" where
  "beep_trace env f d v =
     Play_beep f d v #
       (if play_beep env f d v = Inr False \<and> \<not> showwarning_raises env
        then [Warning_dialog] else [])"

text \<open>The value of the local \<open>delay_ms\<close> in \<open>_perform_test_events\<close>.\<close>

definition delay_ms_of :: "world \<Rightarrow> int" where
  "delay_ms_of w =
     py_round (round_double (1000 *
       round_double (\<bar>audio_delay_frames_var w\<bar> / max (fps_var w) fps_floor)))"

text \<open>The order table of the specification, section 4.2.\<close>

definition table_order :: "string \<Rightarrow> real \<Rightarrow> event list" where
  "table_order target frames =
     (if target = ''Audio''
      then (if frames \<ge> 0 then [Flash, Beep] else [Beep, Flash])
      else (if frames \<ge> 0 then [Beep, Flash] else [Flash, Beep]))"

text \<open>
  Concrete environments: no audio backend at all, winsound whose Beep fails, and
  simpleaudio whose \<open>play_buffer\<close> fails.
\<close>

definition silent_env :: audio_env where
  "silent_env = \<lparr>USE_WINSOUND = False, SIMPLEAUDIO_AVAILABLE = False,
     winsound_beep_raises = False, play_buffer_raises = False, showwarning_raises = False\<rparr>"

definition broken_winsound_env :: audio_env where
  "broken_winsound_env = \<lparr>USE_WINSOUND = True, SIMPLEAUDIO_AVAILABLE = False,
     winsound_beep_raises = True, play_buffer_raises = False, showwarning_raises = False\<rparr>"

definition failing_simpleaudio_env :: audio_env where
  "failing_simpleaudio_env = \<lparr>USE_WINSOUND = False, SIMPLEAUDIO_AVAILABLE = True,
     winsound_beep_raises = False, play_buffer_raises = True, showwarning_raises = False\<rparr>"

section \<open>Observing the countdown\<close>

text \<open>
  The timer that the step showing digit \<open>k\<close> leaves pending, and what that step puts
  on the screen and plays.
\<close>

definition countdown_timer :: "world \<Rightarrow> nat \<Rightarrow> timer" where
  "countdown_timer w k =
     \<lparr>t_id = next_id w + k,
      t_delay = Root_after (max 200 (countdown_step_ms_var w)),
      t_cb = Cb_show_step (max 200 (countdown_step_ms_var w)) (Suc k)\<rparr>"

definition digit_outputs :: "audio_env \<Rightarrow> world \<Rightarrow> nat \<Rightarrow> ui_output list" where
  "digit_outputs env w i =
     [Canvas_bg flash_bg_normal, Center_text (seq ! i)]
     @ (if countdown_beeps_var w then beep_trace env (freqs ! i) 90 (3 / 20) else [])"

definition test_vars :: "world \<Rightarrow> real \<times> string \<times> real" where
  "test_vars w = (audio_delay_frames_var w, delay_target_var w, fps_var w)"

definition displayed :: "ui_output list \<Rightarrow> string list" where
  "displayed outs =
     List.map_filter (\<lambda>out. case out of Center_text s \<Rightarrow> Some s | _ \<Rightarrow> None) outs"

definition cue_tones :: "ui_output list \<Rightarrow> int list" where
  "cue_tones outs =
     List.map_filter (\<lambda>out. case out of Play_beep f d v \<Rightarrow> Some f | _ \<Rightarrow> None) outs"

fun is_show_step :: "callback \<Rightarrow> bool" where
  "is_show_step (Cb_show_step step i) = True"
| "is_show_step _ = False"

section \<open>Observing the repeat timer\<close>

text \<open>
  A call that leaves the repeat machinery alone: it keeps the pending timers, may add
  fresh ones that are not repeat ticks, and does not touch the repeat fields or the tick
  threads.
\<close>

definition adds_no_tick :: "world \<Rightarrow> world \<Rightarrow> bool" where
  "adds_no_tick w w' \<longleftrightarrow>
     repeat_timer w' = repeat_timer w
     \<and> running_repeat w' = running_repeat w
     \<and> repeat_var w' = repeat_var w
     \<and> tick_threads w' = tick_threads w
     \<and> take (length (pending w)) (pending w') = pending w
     \<and> list_all (\<lambda>t. t_cb t \<noteq> Cb_repeat_tick) (new_timers w w')"

text \<open>
  What an event is: the expiry of a repeat tick, a tick thread calling \<open>run_test\<close>, a
  tick thread creating the next timer. And how many events of a kind a run contains.
\<close>

fun fires_tick :: "action \<Rightarrow> world \<Rightarrow> bool" where
  "fires_tick (Fire tid) w =
     (case find (\<lambda>t. t_id t = tid) (pending w) of
        None \<Rightarrow> False
      | Some t \<Rightarrow> t_cb t = Cb_repeat_tick)"
| "fires_tick _ w = False"

fun runs_test :: "action \<Rightarrow> world \<Rightarrow> bool" where
  "runs_test (Tick_step i) w = (i < length (tick_threads w) \<and> tick_threads w ! i = At_test)"
| "runs_test _ w = False"

fun arms_timer :: "action \<Rightarrow> world \<Rightarrow> bool" where
  "arms_timer (Tick_step i) w = (i < length (tick_threads w) \<and> tick_threads w ! i = At_arm)"
| "arms_timer _ w = False"

fun count_events :: "(action \<Rightarrow> world \<Rightarrow> bool) \<Rightarrow> audio_env \<Rightarrow> action list \<Rightarrow> world \<Rightarrow> nat" where
  "count_events P env [] w = 0"
| "count_events P env (a # as) w =
     (if P a w then 1 else 0) + count_events P env as (world_of (do_action env a w))"

text \<open>
  Two runs from start-up with repeat enabled and the first tick expired: in the one
  the tick thread has passed both checks, in the other the first check only.
\<close>

definition past_both_checks :: "action list" where
  "past_both_checks = [Click_repeat, Fire 0, Tick_step 0, Tick_step 0, Tick_step 0]"

definition past_first_check :: "action list" where
  "past_first_check = [Click_repeat, Fire 0, Tick_step 0]"

section \<open>Rounding to a double\<close>



lemma py_round_nonneg: "0 \<le> x \<Longrightarrow> 0 \<le> py_round x"
  by (simp add: py_round_def Let_def)

lemma ulp_pos: "0 < ulp x"
  by (simp add: ulp_def)

lemma round_double_zero: "round_double 0 = 0"
  by (simp add: round_double_def py_round_def)

lemma round_double_nonneg: "0 \<le> x \<Longrightarrow> 0 \<le> round_double x"
  using ulp_pos [of x] by (simp add: round_double_def py_round_nonneg)


text \<open>The rules that compute \<open>round_double\<close> of a number given by its digits.\<close>

lemmas double_eval = round_double_def ulp_def expo.simps py_round_def power_int_minus

lemma fps_floor_value: "fps_floor = 4722366482869645 / 4722366482869645213696"
  by (simp add: fps_floor_def double_eval)

lemma fps_floor_pos: "0 < fps_floor"
  by (simp add: fps_floor_value)

section \<open>Division by the frame rate\<close>

lemma frames_to_ms_eq:
  "frames_to_ms w frames
   = Inr (round_double (1000 * round_double (frames / max (fps_var w) fps_floor)))"
proof -
  have "max (fps_var w) fps_floor \<noteq> 0"
    using fps_floor_pos by (simp add: max_def)
  then show ?thesis
    by (simp add: frames_to_ms_def py_truediv_def py_mul_def Let_def)
qed

text \<open>
  The model reproduces the doubles of the code: 50.25 frames at 25 fps convert to
  2009.9999999999998 ms, not 2010; 40.25 frames at 20 fps give a delay of 2013 ms and
  50.75 frames at 100 fps one of 507 ms, where exact arithmetic would give 2012 and 508.
\<close>

lemma frames_to_ms_doubles:
  "frames_to_ms (init_world\<lparr>fps_var := 25\<rparr>) (201 / 4) = Inr (8840073487319039 / 4398046511104)"
  "delay_ms_of (init_world\<lparr>fps_var := 20, audio_delay_frames_var := 161 / 4\<rparr>) = 2013"
  "delay_ms_of (init_world\<lparr>fps_var := 100, audio_delay_frames_var := 203 / 4\<rparr>) = 507"
  by (simp_all add: frames_to_ms_eq delay_ms_of_def fps_floor_value double_eval)

text \<open>
  C9. \<open>frames_to_ms\<close> never divides by zero: the divisor is \<open>max(fps, 1e-6)\<close>, which is
  at least \<open>1e-6\<close> and so positive for every value of \<open>fps_var\<close>, zero and negative
  ones included; the division of the model, which raises ZeroDivisionError on a zero
  divisor, therefore returns, and \<open>frames_to_ms\<close> returns a number for every input.
\<close>

theorem frames_to_ms_total:
  "fps_floor \<le> max (fps_var w) fps_floor
   \<and> 0 < max (fps_var w) fps_floor
   \<and> py_truediv frames (max (fps_var w) fps_floor)
       = Inr (round_double (frames / max (fps_var w) fps_floor))
   \<and> (\<exists>ms. frames_to_ms w frames = Inr ms)"
proof -
  have pos: "0 < max (fps_var w) fps_floor"
    using fps_floor_pos by (simp add: max_def)
  then have "py_truediv frames (max (fps_var w) fps_floor)
      = Inr (round_double (frames / max (fps_var w) fps_floor))"
    by (simp add: py_truediv_def)
  moreover have "\<exists>ms. frames_to_ms w frames = Inr ms"
    by (simp add: frames_to_ms_eq)
  ultimately show ?thesis using pos by simp
qed

section \<open>Closed forms of the calls\<close>

lemma play_beep_nonneg:
  "0 \<le> d \<Longrightarrow> play_beep env f d v = Inr (USE_WINSOUND env \<or> (SIMPLEAUDIO_AVAILABLE env \<and> \<not> play_buffer_raises env))"
  by (simp add: play_beep_def py_int_def)

lemma do_beep_default:
  "do_beep env None None v w =
     Returned (w\<lparr>trace := trace w @ beep_trace env (max 50 (tone_freq_var w)) (max 20 (tone_ms_var w)) v\<rparr>)"
proof -
  have "0 \<le> max 20 (tone_ms_var w)" by simp
  from play_beep_nonneg [OF this] show ?thesis
    by (simp add: do_beep_def Let_def emit_def beep_trace_def)
qed

lemmas observe_defs =
  emitted_def direct_events_def scheduled_events_def separation_ms_def
  new_outputs_def new_timers_def emit_def add_timer_def beep_trace_def flash_bg_active_def

lemma perform_test_events_unfold:
  "perform_test_events env w =
    (if delay_target_var w = ''Audio'' then
       (if audio_delay_frames_var w \<ge> 0 then
          and_then (flash_on w) (\<lambda>w1.
            if delay_ms_of w > 0
            then Returned (add_timer (Thread_timer (real_of_int (delay_ms_of w) / 1000)) Cb_do_beep w1)
            else do_beep env None None (1 / 5) w1)
        else
          and_then (do_beep env None None (1 / 5) w) (\<lambda>w1.
            Returned (add_timer (Root_after \<bar>delay_ms_of w\<bar>) Cb_flash_on w1)))
     else
       (if audio_delay_frames_var w \<ge> 0 then
          and_then (do_beep env None None (1 / 5) w) (\<lambda>w1.
            if delay_ms_of w > 0
            then Returned (add_timer (Root_after (delay_ms_of w)) Cb_flash_on w1)
            else flash_on w1)
        else
          and_then (flash_on w) (\<lambda>w1.
            if delay_ms_of w > 0
            then Returned (add_timer (Thread_timer (real_of_int (delay_ms_of w) / 1000)) Cb_do_beep w1)
            else do_beep env None None (1 / 5) w1)))"
  unfolding perform_test_events_def frames_to_ms_eq delay_ms_of_def Let_def
  by (simp only: sum.case)

lemma delay_ms_of_nonneg: "0 \<le> delay_ms_of w"
proof -
  have "0 < max (fps_var w) fps_floor"
    using fps_floor_pos by (simp add: max_def)
  then have "0 \<le> \<bar>audio_delay_frames_var w\<bar> / max (fps_var w) fps_floor"
    by simp
  then have "0 \<le> 1000 * round_double (\<bar>audio_delay_frames_var w\<bar> / max (fps_var w) fps_floor)"
    by (simp add: round_double_nonneg)
  then show ?thesis
    unfolding delay_ms_of_def by (intro py_round_nonneg round_double_nonneg)
qed

lemma perform_test_events_observed:
  "\<exists>w'. perform_test_events env w = Returned w'
     \<and> emitted w w' = table_order (delay_target_var w) (audio_delay_frames_var w)
     \<and> separation_ms w w' = real_of_int (delay_ms_of w)"
  unfolding perform_test_events_unfold using delay_ms_of_nonneg [of w]
  by (simp add: flash_on_def do_beep_default observe_defs table_order_def)

lemma perform_test_events_direct:
  "delay_ms_of w = 0 \<Longrightarrow> \<not> (delay_target_var w = ''Audio'' \<and> audio_delay_frames_var w < 0) \<Longrightarrow>
   \<exists>w'. perform_test_events env w = Returned w'
     \<and> direct_events w w' = table_order (delay_target_var w) (audio_delay_frames_var w)
     \<and> scheduled_events w w' = []"
  unfolding perform_test_events_unfold
  by (auto simp add: flash_on_def do_beep_default observe_defs table_order_def)

section \<open>The event pair\<close>

text \<open>
  C1. For each delay target, Audio or Visual, and every real delay, \<open>_perform_test_events\<close>
  returns and has emitted exactly one flash event and one beep event. Flash comes first
  for (Audio, delay at least 0) and for (Visual, delay below 0), Beep comes first in the
  two other cases, and the other event is second. A delay of 0 counts as non-negative.
\<close>

theorem perform_test_events_order:
  assumes tgt: "delay_target_var w \<in> {''Audio'', ''Visual''}"
  shows "\<exists>w'. perform_test_events env w = Returned w'
    \<and> count_list (emitted w w') Flash = 1
    \<and> count_list (emitted w w') Beep = 1
    \<and> emitted w w' =
        (if (delay_target_var w = ''Audio'' \<and> audio_delay_frames_var w \<ge> 0)
            \<or> (delay_target_var w = ''Visual'' \<and> audio_delay_frames_var w < 0)
         then [Flash, Beep] else [Beep, Flash])"
proof -
  obtain w' where r: "perform_test_events env w = Returned w'"
    and e: "emitted w w' = table_order (delay_target_var w) (audio_delay_frames_var w)"
    using perform_test_events_observed by blast
  from tgt e have "emitted w w' =
        (if (delay_target_var w = ''Audio'' \<and> audio_delay_frames_var w \<ge> 0)
            \<or> (delay_target_var w = ''Visual'' \<and> audio_delay_frames_var w < 0)
         then [Flash, Beep] else [Beep, Flash])"
    by (auto simp: table_order_def)
  moreover from this have "count_list (emitted w w') Flash = 1" "count_list (emitted w w') Beep = 1"
    by (simp_all split: if_splits)
  ultimately show ?thesis using r by blast
qed

theorem perform_test_events_order_witness:
  "''Visual'' \<in> {''Audio'', ''Visual''}
   \<and> emitted (init_world\<lparr>audio_delay_frames_var := - 6, delay_target_var := ''Visual''\<rparr>)
        (world_of (perform_test_events silent_env
           (init_world\<lparr>audio_delay_frames_var := - 6, delay_target_var := ''Visual''\<rparr>)))
      = [Flash, Beep]
   \<and> emitted (init_world\<lparr>audio_delay_frames_var := 0, delay_target_var := ''Visual''\<rparr>)
        (world_of (perform_test_events silent_env
           (init_world\<lparr>audio_delay_frames_var := 0, delay_target_var := ''Visual''\<rparr>)))
      = [Beep, Flash]"
  using perform_test_events_order
          [of "init_world\<lparr>audio_delay_frames_var := - 6, delay_target_var := ''Visual''\<rparr>" silent_env]
        perform_test_events_order
          [of "init_world\<lparr>audio_delay_frames_var := 0, delay_target_var := ''Visual''\<rparr>" silent_env]
  by auto



text \<open>
  Where double and exact arithmetic part, the separation is the one of the doubles:
  2013 ms for 40.25 frames at 20 fps, 507 ms for 50.75 frames at 100 fps.
\<close>

lemma separation_doubles:
  "separation_ms (init_world\<lparr>fps_var := 20, audio_delay_frames_var := 161 / 4\<rparr>)
     (world_of (perform_test_events env
        (init_world\<lparr>fps_var := 20, audio_delay_frames_var := 161 / 4\<rparr>))) = 2013"
  "separation_ms (init_world\<lparr>fps_var := 100, audio_delay_frames_var := 203 / 4\<rparr>)
     (world_of (perform_test_events env
        (init_world\<lparr>fps_var := 100, audio_delay_frames_var := 203 / 4\<rparr>))) = 507"
  using perform_test_events_observed
          [of env "init_world\<lparr>fps_var := 20, audio_delay_frames_var := 161 / 4\<rparr>"]
        perform_test_events_observed
          [of env "init_world\<lparr>fps_var := 100, audio_delay_frames_var := 203 / 4\<rparr>"]
  by (auto simp add: frames_to_ms_doubles)

section \<open>The conversion\<close>





section \<open>A zero delay\<close>

text \<open>
  C4 at fps = 1000, target Audio, delay -0.25 frames: \<open>delay_ms\<close> is 0, the beep is
  called directly and the flash, the second event, is handed to \<open>root.after(0, ...)\<close>
  instead of being called. In the three other branches a zero \<open>delay_ms\<close> does lead to
  a direct call (\<open>perform_test_events_direct\<close>).
\<close>

theorem audio_negative_zero_delay_uses_timer:
  "delay_ms_of (init_world\<lparr>fps_var := 1000, audio_delay_frames_var := - (1 / 4)\<rparr>) = 0
   \<and> direct_events (init_world\<lparr>fps_var := 1000, audio_delay_frames_var := - (1 / 4)\<rparr>)
        (world_of (perform_test_events env
           (init_world\<lparr>fps_var := 1000, audio_delay_frames_var := - (1 / 4)\<rparr>))) = [Beep]
   \<and> scheduled_events (init_world\<lparr>fps_var := 1000, audio_delay_frames_var := - (1 / 4)\<rparr>)
        (world_of (perform_test_events env
           (init_world\<lparr>fps_var := 1000, audio_delay_frames_var := - (1 / 4)\<rparr>)))
       = [(Flash, Root_after 0)]"
proof -
  have d: "delay_ms_of (init_world\<lparr>fps_var := 1000, audio_delay_frames_var := - (1 / 4)\<rparr>) = 0"
    by (simp add: delay_ms_of_def fps_floor_value double_eval)
  show ?thesis
    unfolding perform_test_events_unfold d
    by (simp add: init_world_def do_beep_default observe_defs)
qed

section \<open>The delay range\<close>

lemma update_labels_returned:
  "update_labels w = Returned (emit Info_text_refresh (emit Delay_label_refresh w))"
  by (simp add: update_labels_def update_info_text_def frames_to_ms_eq emit_def)




section \<open>Failing beeps\<close>

text \<open>
  C8 as stated fails on the winsound backend: the beep runs in a daemon thread, and when
  \<open>winsound.Beep\<close> fails there, \<open>play_beep\<close> has returned True already, and \<open>_do_beep\<close>
  shows no warning.
\<close>

theorem winsound_failure_unreported_counterexample:
  "USE_WINSOUND broken_winsound_env \<and> winsound_beep_raises broken_winsound_env
   \<and> play_beep broken_winsound_env 1000 150 (1 / 5) = Inr True
   \<and> play_beep broken_winsound_env 1000 150 (1 / 5) \<noteq> Inr False
   \<and> trace (world_of (do_beep broken_winsound_env None None (1 / 5) init_world))
       = [Play_beep 1000 150 (1 / 5)]"
  by (simp add: broken_winsound_env_def play_beep_def do_beep_default beep_trace_def init_world_def)

text \<open>
  C8, amended. \<open>play_beep\<close> returns False, and does not raise, when no audio backend is
  available and when simpleaudio's \<open>play_buffer\<close> fails (for a duration of at least 0, as
  every caller passes); with winsound it returns True whatever happens to the beep.
  \<open>_do_beep\<close> with the default arguments always returns: it calls \<open>play_beep\<close> once and,
  on False, shows one warning dialog for that call (none if the dialog itself fails).
  \<open>_perform_test_events\<close> therefore always returns, with its one flash event and its
  one beep event fired or scheduled, whatever the audio environment does.
\<close>

theorem beep_failure_is_local:
  "(\<not> USE_WINSOUND env \<and> \<not> SIMPLEAUDIO_AVAILABLE env \<longrightarrow> play_beep env f d v = Inr False)
   \<and> (\<not> USE_WINSOUND env \<and> SIMPLEAUDIO_AVAILABLE env \<and> play_buffer_raises env \<and> 0 \<le> d
        \<longrightarrow> play_beep env f d v = Inr False)
   \<and> (USE_WINSOUND env \<longrightarrow> play_beep env f d v = Inr True)
   \<and> (\<exists>ok. play_beep env (max 50 (tone_freq_var w)) (max 20 (tone_ms_var w)) vol = Inr ok
         \<and> do_beep env None None vol w =
             Returned (w\<lparr>trace := trace w @
               Play_beep (max 50 (tone_freq_var w)) (max 20 (tone_ms_var w)) vol #
               (if \<not> ok \<and> \<not> showwarning_raises env then [Warning_dialog] else [])\<rparr>))
   \<and> (\<exists>w'. perform_test_events env w = Returned w'
         \<and> count_list (emitted w w') Flash = 1 \<and> count_list (emitted w w') Beep = 1)"
proof -
  have a: "\<not> USE_WINSOUND env \<and> \<not> SIMPLEAUDIO_AVAILABLE env \<longrightarrow> play_beep env f d v = Inr False"
    by (simp add: play_beep_def)
  have b: "\<not> USE_WINSOUND env \<and> SIMPLEAUDIO_AVAILABLE env \<and> play_buffer_raises env \<and> 0 \<le> d
        \<longrightarrow> play_beep env f d v = Inr False"
    by (simp add: play_beep_nonneg)
  have c: "USE_WINSOUND env \<longrightarrow> play_beep env f d v = Inr True"
    by (simp add: play_beep_def)
  have d: "\<exists>ok. play_beep env (max 50 (tone_freq_var w)) (max 20 (tone_ms_var w)) vol = Inr ok
         \<and> do_beep env None None vol w =
             Returned (w\<lparr>trace := trace w @
               Play_beep (max 50 (tone_freq_var w)) (max 20 (tone_ms_var w)) vol #
               (if \<not> ok \<and> \<not> showwarning_raises env then [Warning_dialog] else [])\<rparr>)"
  proof -
    have "0 \<le> max 20 (tone_ms_var w)" by simp
    from play_beep_nonneg [OF this] show ?thesis
      by (simp add: do_beep_default beep_trace_def)
  qed
  obtain w' where r: "perform_test_events env w = Returned w'"
    and e: "emitted w w' = table_order (delay_target_var w) (audio_delay_frames_var w)"
    using perform_test_events_observed by blast
  have "count_list (emitted w w') Flash = 1 \<and> count_list (emitted w w') Beep = 1"
    unfolding e by (simp add: table_order_def)
  with r have e': "\<exists>w'. perform_test_events env w = Returned w'
         \<and> count_list (emitted w w') Flash = 1 \<and> count_list (emitted w w') Beep = 1"
    by blast
  from a b c d e' show ?thesis by blast
qed

theorem beep_failure_is_local_witness:
  "\<not> USE_WINSOUND silent_env \<and> \<not> SIMPLEAUDIO_AVAILABLE silent_env
   \<and> play_beep silent_env 1000 150 (1 / 5) = Inr False
   \<and> do_beep silent_env None None (1 / 5) init_world
       = Returned (init_world\<lparr>trace := [Play_beep 1000 150 (1 / 5), Warning_dialog]\<rparr>)
   \<and> count_list (emitted init_world (world_of (perform_test_events silent_env init_world))) Flash = 1
   \<and> \<not> USE_WINSOUND failing_simpleaudio_env \<and> SIMPLEAUDIO_AVAILABLE failing_simpleaudio_env
   \<and> play_buffer_raises failing_simpleaudio_env \<and> (0 :: int) \<le> 150
   \<and> play_beep failing_simpleaudio_env 1000 150 (1 / 5) = Inr False
   \<and> USE_WINSOUND broken_winsound_env
   \<and> play_beep broken_winsound_env 1000 150 (1 / 5) = Inr True"
  using beep_failure_is_local [of silent_env 1000 150 "1 / 5" init_world "1 / 5"]
        beep_failure_is_local [of failing_simpleaudio_env 1000 150 "1 / 5" init_world "1 / 5"]
        beep_failure_is_local [of broken_winsound_env 1000 150 "1 / 5" init_world "1 / 5"]
  by (auto simp add: silent_env_def failing_simpleaudio_env_def broken_winsound_env_def
        init_world_def)

section \<open>The countdown\<close>

lemma do_beep_explicit:
  "0 \<le> d \<Longrightarrow>
   do_beep env (Some f) (Some d) v w = Returned (w\<lparr>trace := trace w @ beep_trace env f d v\<rparr>)"
  using play_beep_nonneg [of d env f v]
  by (simp add: do_beep_def Let_def emit_def beep_trace_def)

lemma show_step_digit:
  "i < 3 \<Longrightarrow>
   show_step env step i w =
     Returned (add_timer (Root_after step) (Cb_show_step step (Suc i))
       (w\<lparr>trace := trace w @ [Canvas_bg flash_bg_normal, Center_text (seq ! i)]
            @ (if countdown_beeps_var w then beep_trace env (freqs ! i) 90 (3 / 20) else [])\<rparr>))"
  by (simp add: show_step_def seq_def Let_def emit_def do_beep_explicit)

lemma show_step_done:
  "show_step env step 3 w = perform_test_events env (emit (Center_text '''') w)"
  by (simp add: show_step_def seq_def)

lemma find_last_fresh:
  "list_all (\<lambda>t. t_id t < n) ts \<Longrightarrow> t_id t = n \<Longrightarrow> find (\<lambda>t. t_id t = n) (ts @ [t]) = Some t"
  by (induction ts) auto

lemma filter_fresh:
  "list_all (\<lambda>t. t_id t < n) ts \<Longrightarrow> filter (\<lambda>t. t_id t \<noteq> n) ts = ts"
  by (induction ts) auto

lemma fire_pending_last:
  assumes "list_all (\<lambda>t. t_id t < n) ts" and "pending w = ts @ [t]" and "t_id t = n"
  shows "fire env n w = run_callback env (t_cb t) (w\<lparr>pending := ts\<rparr>)"
  using assms by (simp add: fire_def cancel_timer_def find_last_fresh filter_fresh)

lemma list_all_id_mono:
  "list_all (\<lambda>t. t_id t < n) ts \<Longrightarrow> n \<le> m \<Longrightarrow> list_all (\<lambda>t. t_id t < m) ts"
  by (induction ts) auto

lemma countdown_steps:
  assumes fresh: "list_all (\<lambda>t. t_id t < next_id w) (pending w)" and cd: "countdown_var w"
  shows "\<exists>w1 w2 w3.
     run_test env w = Returned w1
   \<and> fire env (next_id w) (set_test_vars f1 t1 p1 w1) = Returned w2
   \<and> fire env (next_id w + 1) (set_test_vars f2 t2 p2 w2) = Returned w3
   \<and> pending w1 = pending w @ [countdown_timer w 0]
   \<and> pending w2 = pending w @ [countdown_timer w 1]
   \<and> pending w3 = pending w @ [countdown_timer w 2]
   \<and> trace w1 = trace w @ digit_outputs env w 0
   \<and> trace w2 = trace w1 @ digit_outputs env w 1
   \<and> trace w3 = trace w2 @ digit_outputs env w 2
   \<and> test_vars w1 = test_vars w \<and> test_vars w2 = (f1, t1, p1) \<and> test_vars w3 = (f2, t2, p2)"
proof -
  define step where "step = max 200 (countdown_step_ms_var w)"
  define n where "n = next_id w"
  define w1 where "w1 = add_timer (Root_after step) (Cb_show_step step (Suc 0))
       (w\<lparr>trace := trace w @ digit_outputs env w 0\<rparr>)"
  have r1: "run_test env w = Returned w1"
    using cd by (simp add: run_test_def run_with_countdown_def show_step_digit w1_def step_def
        digit_outputs_def Let_def)
  have p1: "pending w1 = pending w @ [countdown_timer w 0]"
    by (simp add: w1_def add_timer_def countdown_timer_def step_def)
  have t1: "trace w1 = trace w @ digit_outputs env w 0"
    by (simp add: w1_def add_timer_def)
  have n1: "next_id w1 = Suc n" and b1: "countdown_beeps_var w1 = countdown_beeps_var w"
    by (simp_all add: w1_def add_timer_def n_def)
  let ?e1 = "set_test_vars f1 t1 p1 w1"
  define w2 where "w2 = add_timer (Root_after step) (Cb_show_step step (Suc 1))
       (?e1\<lparr>pending := pending w, trace := trace w1 @ digit_outputs env w 1\<rparr>)"
  have "fire env n ?e1 = run_callback env (t_cb (countdown_timer w 0)) (?e1\<lparr>pending := pending w\<rparr>)"
    by (rule fire_pending_last [OF fresh [folded n_def]])
       (simp_all add: set_test_vars_def p1 countdown_timer_def n_def)
  then have r2: "fire env n ?e1 = Returned w2"
    by (simp add: countdown_timer_def show_step_digit w2_def step_def digit_outputs_def
          set_test_vars_def b1 eval_nat_numeral)
  have p2: "pending w2 = pending w @ [countdown_timer w 1]"
    by (simp add: w2_def add_timer_def countdown_timer_def step_def set_test_vars_def n1 n_def)
  have t2: "trace w2 = trace w1 @ digit_outputs env w 1"
    by (simp add: w2_def add_timer_def)
  have n2: "next_id w2 = Suc (Suc n)" and b2: "countdown_beeps_var w2 = countdown_beeps_var w"
    by (simp_all add: w2_def add_timer_def set_test_vars_def n1 b1)
  let ?e2 = "set_test_vars f2 t2 p2 w2"
  define w3 where "w3 = add_timer (Root_after step) (Cb_show_step step (Suc 2))
       (?e2\<lparr>pending := pending w, trace := trace w2 @ digit_outputs env w 2\<rparr>)"
  have fresh1: "list_all (\<lambda>t. t_id t < n + 1) (pending w)"
    using fresh by (rule list_all_id_mono) (simp add: n_def)
  have "fire env (n + 1) ?e2 = run_callback env (t_cb (countdown_timer w 1)) (?e2\<lparr>pending := pending w\<rparr>)"
    by (rule fire_pending_last [OF fresh1])
       (simp_all add: set_test_vars_def p2 countdown_timer_def n_def)
  then have r3: "fire env (n + 1) ?e2 = Returned w3"
    by (simp add: countdown_timer_def show_step_digit w3_def step_def digit_outputs_def
          set_test_vars_def b2 eval_nat_numeral)
  have p3: "pending w3 = pending w @ [countdown_timer w 2]"
    by (simp add: w3_def add_timer_def countdown_timer_def step_def set_test_vars_def n2 n_def)
  have t3: "trace w3 = trace w2 @ digit_outputs env w 2"
    by (simp add: w3_def add_timer_def)
  have v: "test_vars w1 = test_vars w" "test_vars w2 = (f1, t1, p1)" "test_vars w3 = (f2, t2, p2)"
    by (simp_all add: test_vars_def w1_def w2_def w3_def add_timer_def set_test_vars_def)
  from r1 r2 r3 p1 p2 p3 t1 t2 t3 v show ?thesis
    unfolding n_def by blast
qed

lemma countdown_finish:
  assumes "list_all (\<lambda>t. t_id t < next_id w) (pending w)"
    and "pending w3 = pending w @ [countdown_timer w 2]"
  shows "fire env (next_id w + 2) w3
         = perform_test_events env (emit (Center_text '''') (cancel_timer (next_id w + 2) w3))"
    and "pending (cancel_timer (next_id w + 2) w3) = pending w"
proof -
  have f: "list_all (\<lambda>t. t_id t < next_id w + 2) (pending w)"
    using assms(1) by (rule list_all_id_mono) simp
  then show "pending (cancel_timer (next_id w + 2) w3) = pending w"
    using assms(2) by (simp add: cancel_timer_def filter_fresh countdown_timer_def)
  then have "cancel_timer (next_id w + 2) w3 = w3\<lparr>pending := pending w\<rparr>"
    by (simp add: cancel_timer_def)
  with fire_pending_last [OF f assms(2)]
  show "fire env (next_id w + 2) w3
         = perform_test_events env (emit (Center_text '''') (cancel_timer (next_id w + 2) w3))"
    by (simp add: countdown_timer_def show_step_done)
qed

lemma set_test_vars_same:
  "test_vars w = (f, t, p) \<Longrightarrow> set_test_vars f t p w = w"
  by (auto simp add: test_vars_def set_test_vars_def)

lemma perform_test_events_quiet:
  "\<exists>w'. perform_test_events env w = Returned w'
     \<and> set (displayed (new_outputs w w')) \<subseteq> {''FLASH''}
     \<and> list_all (\<lambda>t. \<not> is_show_step (t_cb t)) (new_timers w w')
     \<and> (\<exists>ts. pending w' = pending w @ ts)"
  unfolding perform_test_events_unfold
  by (simp add: flash_on_def do_beep_default observe_defs displayed_def)

text \<open>
  C6. With the countdown enabled, \<open>run_test\<close> shows "3" and schedules the next step, whose
  expiry shows "2", whose successor shows "1": exactly three digits, each followed by one
  timer of \<open>max(200, step)\<close> ms, and, if the cue option is on, each with one cue tone, at
  600, 700 and 800 Hz. The expiry of the third timer clears the centre text and is one
  call of \<open>_perform_test_events\<close>, which emits the event pair and leaves no countdown step
  pending. With the countdown disabled, \<open>run_test\<close> is \<open>_perform_test_events\<close>: no digit
  is displayed and no countdown step is scheduled.
\<close>

theorem run_test_countdown:
  assumes fresh: "list_all (\<lambda>t. t_id t < next_id w) (pending w)"
  shows "(countdown_var w \<longrightarrow>
      (\<exists>w1 w2 w3 w4.
          run_test env w = Returned w1
        \<and> fire env (next_id w) w1 = Returned w2
        \<and> fire env (next_id w + 1) w2 = Returned w3
        \<and> fire env (next_id w + 2) w3 = Returned w4
        \<and> pending w1 = pending w @ [countdown_timer w 0]
        \<and> pending w2 = pending w @ [countdown_timer w 1]
        \<and> pending w3 = pending w @ [countdown_timer w 2]
        \<and> displayed (new_outputs w w1) = [''3'']
        \<and> displayed (new_outputs w1 w2) = [''2'']
        \<and> displayed (new_outputs w2 w3) = [''1'']
        \<and> cue_tones (new_outputs w w3) = (if countdown_beeps_var w then [600, 700, 800] else [])
        \<and> fire env (next_id w + 2) w3
            = perform_test_events env (emit (Center_text '''') (cancel_timer (next_id w + 2) w3))
        \<and> pending (cancel_timer (next_id w + 2) w3) = pending w
        \<and> emitted (emit (Center_text '''') (cancel_timer (next_id w + 2) w3)) w4
            = table_order (delay_target_var w) (audio_delay_frames_var w)
        \<and> list_all (\<lambda>t. \<not> is_show_step (t_cb t)) (new_timers w w4)))
    \<and> (\<not> countdown_var w \<longrightarrow>
      run_test env w = perform_test_events env w
      \<and> (\<exists>w'. run_test env w = Returned w'
          \<and> set (displayed (new_outputs w w')) \<inter> set seq = {}
          \<and> list_all (\<lambda>t. \<not> is_show_step (t_cb t)) (new_timers w w')
          \<and> emitted w w' = table_order (delay_target_var w) (audio_delay_frames_var w)))"
proof (intro conjI impI)
  assume cd: "countdown_var w"
  obtain f t p where ftp: "test_vars w = (f, t, p)"
    by (cases "test_vars w") blast
  from countdown_steps [OF fresh cd, of env f t p f t p]
  obtain w1 w2 w3 where
    r1: "run_test env w = Returned w1"
    and r2': "fire env (next_id w) (set_test_vars f t p w1) = Returned w2"
    and r3': "fire env (next_id w + 1) (set_test_vars f t p w2) = Returned w3"
    and p: "pending w1 = pending w @ [countdown_timer w 0]"
      "pending w2 = pending w @ [countdown_timer w 1]"
      "pending w3 = pending w @ [countdown_timer w 2]"
    and tr: "trace w1 = trace w @ digit_outputs env w 0"
      "trace w2 = trace w1 @ digit_outputs env w 1"
      "trace w3 = trace w2 @ digit_outputs env w 2"
    and v: "test_vars w1 = test_vars w" "test_vars w2 = (f, t, p)" "test_vars w3 = (f, t, p)"
    by blast
  have r2: "fire env (next_id w) w1 = Returned w2"
    using r2' v(1) ftp by (simp add: set_test_vars_same)
  have r3: "fire env (next_id w + 1) w2 = Returned w3"
    using r3' v(2) by (simp add: set_test_vars_same)
  let ?wc = "emit (Center_text '''') (cancel_timer (next_id w + 2) w3)"
  note fin = countdown_finish [OF fresh p(3)]
  obtain w4 where r4: "perform_test_events env ?wc = Returned w4"
    and e4: "emitted ?wc w4 = table_order (delay_target_var ?wc) (audio_delay_frames_var ?wc)"
    using perform_test_events_observed by blast
  have vc: "delay_target_var ?wc = delay_target_var w"
    "audio_delay_frames_var ?wc = audio_delay_frames_var w"
    using v(3) ftp by (simp_all add: test_vars_def emit_def cancel_timer_def)
  have q: "list_all (\<lambda>t. \<not> is_show_step (t_cb t)) (new_timers ?wc w4)"
    using perform_test_events_quiet [of env ?wc] r4 by auto
  have pc: "pending ?wc = pending w"
    using fin(2) by (simp add: emit_def)
  have d: "displayed (new_outputs w w1) = [''3'']" "displayed (new_outputs w1 w2) = [''2'']"
    "displayed (new_outputs w2 w3) = [''1'']"
    by (simp_all add: tr new_outputs_def digit_outputs_def displayed_def beep_trace_def seq_def)
  have c: "cue_tones (new_outputs w w3) = (if countdown_beeps_var w then [600, 700, 800] else [])"
    by (simp add: tr new_outputs_def digit_outputs_def cue_tones_def beep_trace_def freqs_def)
  have nt: "list_all (\<lambda>t. \<not> is_show_step (t_cb t)) (new_timers w w4)"
    using q pc by (simp add: new_timers_def)
  show "\<exists>w1 w2 w3 w4.
          run_test env w = Returned w1
        \<and> fire env (next_id w) w1 = Returned w2
        \<and> fire env (next_id w + 1) w2 = Returned w3
        \<and> fire env (next_id w + 2) w3 = Returned w4
        \<and> pending w1 = pending w @ [countdown_timer w 0]
        \<and> pending w2 = pending w @ [countdown_timer w 1]
        \<and> pending w3 = pending w @ [countdown_timer w 2]
        \<and> displayed (new_outputs w w1) = [''3'']
        \<and> displayed (new_outputs w1 w2) = [''2'']
        \<and> displayed (new_outputs w2 w3) = [''1'']
        \<and> cue_tones (new_outputs w w3) = (if countdown_beeps_var w then [600, 700, 800] else [])
        \<and> fire env (next_id w + 2) w3
            = perform_test_events env (emit (Center_text '''') (cancel_timer (next_id w + 2) w3))
        \<and> pending (cancel_timer (next_id w + 2) w3) = pending w
        \<and> emitted (emit (Center_text '''') (cancel_timer (next_id w + 2) w3)) w4
            = table_order (delay_target_var w) (audio_delay_frames_var w)
        \<and> list_all (\<lambda>t. \<not> is_show_step (t_cb t)) (new_timers w w4)"
    using r1 r2 r3 r4 fin p d c e4 vc nt
    by (intro exI [of _ w1] exI [of _ w2] exI [of _ w3] exI [of _ w4]) simp
next
  assume "\<not> countdown_var w"
  then show "run_test env w = perform_test_events env w"
    by (simp add: run_test_def)
next
  assume n: "\<not> countdown_var w"
  obtain w' where r: "perform_test_events env w = Returned w'"
    and e: "emitted w w' = table_order (delay_target_var w) (audio_delay_frames_var w)"
    using perform_test_events_observed by blast
  from perform_test_events_quiet [of env w] r
  have "set (displayed (new_outputs w w')) \<subseteq> {''FLASH''}"
    and t: "list_all (\<lambda>t. \<not> is_show_step (t_cb t)) (new_timers w w')"
    by auto
  then have "set (displayed (new_outputs w w')) \<inter> set seq = {}"
    by (auto simp add: seq_def)
  with n r e t show "\<exists>w'. run_test env w = Returned w'
          \<and> set (displayed (new_outputs w w')) \<inter> set seq = {}
          \<and> list_all (\<lambda>t. \<not> is_show_step (t_cb t)) (new_timers w w')
          \<and> emitted w w' = table_order (delay_target_var w) (audio_delay_frames_var w)"
    by (simp add: run_test_def)
qed

theorem run_test_countdown_witness:
  "list_all (\<lambda>t. t_id t < next_id (init_world\<lparr>countdown_var := True\<rparr>))
     (pending (init_world\<lparr>countdown_var := True\<rparr>))
   \<and> countdown_var (init_world\<lparr>countdown_var := True\<rparr>)
   \<and> displayed (new_outputs (init_world\<lparr>countdown_var := True\<rparr>)
        (world_of (run_test silent_env (init_world\<lparr>countdown_var := True\<rparr>)))) = [''3'']
   \<and> pending (world_of (run_test silent_env (init_world\<lparr>countdown_var := True\<rparr>)))
       = [\<lparr>t_id = 0, t_delay = Root_after 700, t_cb = Cb_show_step 700 1\<rparr>]
   \<and> list_all (\<lambda>t. t_id t < next_id init_world) (pending init_world)
   \<and> \<not> countdown_var init_world
   \<and> run_test silent_env init_world = perform_test_events silent_env init_world"
  using run_test_countdown [of "init_world\<lparr>countdown_var := True\<rparr>" silent_env]
        run_test_countdown [of init_world silent_env]
  by (auto simp add: init_world_def countdown_timer_def)

text \<open>
  C10. With the countdown enabled, the test settings may be edited after the test was
  triggered, after "3" and after "2" and after "1". The event pair fired when the
  countdown finishes is computed from the delay, the target and the frame rate as they
  are at that moment: its order is the table's at the last values and its separation is
  \<open>delay_ms\<close> of the last values, whatever the values were when the test was triggered.
\<close>

theorem countdown_reads_settings_at_completion:
  assumes fresh: "list_all (\<lambda>t. t_id t < next_id w) (pending w)"
    and cd: "countdown_var w"
  shows "let wb = run_actions env
                    [Press_test, Edit_test_vars f1 t1 p1, Fire (next_id w),
                     Edit_test_vars f2 t2 p2, Fire (next_id w + 1),
                     Edit_test_vars f3 t3 p3] w;
             wc = emit (Center_text '''') (cancel_timer (next_id w + 2) wb)
         in test_vars wc = (f3, t3, p3)
          \<and> displayed (new_outputs w wc) = [''3'', ''2'', ''1'', '''']
          \<and> fire env (next_id w + 2) wb = perform_test_events env wc
          \<and> (\<exists>w'. fire env (next_id w + 2) wb = Returned w'
                \<and> emitted wc w' = table_order t3 f3
                \<and> separation_ms wc w'
                    = real_of_int (py_round (round_double (1000 * round_double (\<bar>f3\<bar> / max p3 fps_floor)))))"
proof -
  from countdown_steps [OF fresh cd, of env f1 t1 p1 f2 t2 p2]
  obtain w1 w2 w3 where
    r1: "run_test env w = Returned w1"
    and r2: "fire env (next_id w) (set_test_vars f1 t1 p1 w1) = Returned w2"
    and r3: "fire env (next_id w + 1) (set_test_vars f2 t2 p2 w2) = Returned w3"
    and p3: "pending w3 = pending w @ [countdown_timer w 2]"
    and tr: "trace w1 = trace w @ digit_outputs env w 0"
      "trace w2 = trace w1 @ digit_outputs env w 1"
      "trace w3 = trace w2 @ digit_outputs env w 2"
    by blast
  define wb where "wb = set_test_vars f3 t3 p3 w3"
  define wc where "wc = emit (Center_text '''') (cancel_timer (next_id w + 2) wb)"
  have run: "run_actions env
                    [Press_test, Edit_test_vars f1 t1 p1, Fire (next_id w),
                     Edit_test_vars f2 t2 p2, Fire (next_id w + 1),
                     Edit_test_vars f3 t3 p3] w = wb"
    using r1 r2 r3 by (simp add: wb_def)
  have pb: "pending wb = pending w @ [countdown_timer w 2]"
    using p3 by (simp add: wb_def set_test_vars_def)
  note fin = countdown_finish [OF fresh pb]
  have v: "test_vars wc = (f3, t3, p3)"
    by (simp add: wc_def wb_def test_vars_def emit_def cancel_timer_def set_test_vars_def)
  have d: "displayed (new_outputs w wc) = [''3'', ''2'', ''1'', '''']"
    by (simp add: wc_def wb_def emit_def cancel_timer_def set_test_vars_def tr new_outputs_def
          digit_outputs_def displayed_def beep_trace_def seq_def)
  obtain w' where r: "perform_test_events env wc = Returned w'"
    and e: "emitted wc w' = table_order (delay_target_var wc) (audio_delay_frames_var wc)"
    and s: "separation_ms wc w' = real_of_int (delay_ms_of wc)"
    using perform_test_events_observed by blast
  from v have vs: "audio_delay_frames_var wc = f3" "delay_target_var wc = t3" "fps_var wc = p3"
    by (simp_all add: test_vars_def)
  have f: "fire env (next_id w + 2) wb = perform_test_events env wc"
    using fin(1) by (simp add: wc_def)
  have "\<exists>w'. fire env (next_id w + 2) wb = Returned w'
                \<and> emitted wc w' = table_order t3 f3
                \<and> separation_ms wc w'
                    = real_of_int (py_round (round_double (1000 * round_double (\<bar>f3\<bar> / max p3 fps_floor))))"
    using f r e s vs by (simp add: delay_ms_of_def)
  with v d f show ?thesis
    unfolding Let_def run wc_def [symmetric] by blast
qed

theorem countdown_reads_settings_at_completion_witness:
  "list_all (\<lambda>t. t_id t < next_id (init_world\<lparr>countdown_var := True\<rparr>))
     (pending (init_world\<lparr>countdown_var := True\<rparr>))
   \<and> countdown_var (init_world\<lparr>countdown_var := True\<rparr>)
   \<and> emitted
        (emit (Center_text '''') (cancel_timer 2
          (run_actions silent_env
             [Press_test, Edit_test_vars 0 ''Audio'' 24, Fire 0,
              Edit_test_vars 0 ''Audio'' 24, Fire 1,
              Edit_test_vars 6 ''Visual'' 24] (init_world\<lparr>countdown_var := True\<rparr>))))
        (world_of (fire silent_env 2
          (run_actions silent_env
             [Press_test, Edit_test_vars 0 ''Audio'' 24, Fire 0,
              Edit_test_vars 0 ''Audio'' 24, Fire 1,
              Edit_test_vars 6 ''Visual'' 24] (init_world\<lparr>countdown_var := True\<rparr>))))
       = [Beep, Flash]
   \<and> separation_ms
        (emit (Center_text '''') (cancel_timer 2
          (run_actions silent_env
             [Press_test, Edit_test_vars 0 ''Audio'' 24, Fire 0,
              Edit_test_vars 0 ''Audio'' 24, Fire 1,
              Edit_test_vars 6 ''Visual'' 24] (init_world\<lparr>countdown_var := True\<rparr>))))
        (world_of (fire silent_env 2
          (run_actions silent_env
             [Press_test, Edit_test_vars 0 ''Audio'' 24, Fire 0,
              Edit_test_vars 0 ''Audio'' 24, Fire 1,
              Edit_test_vars 6 ''Visual'' 24] (init_world\<lparr>countdown_var := True\<rparr>))))
       = 250"
proof -
  have h: "list_all (\<lambda>t. t_id t < next_id (init_world\<lparr>countdown_var := True\<rparr>))
     (pending (init_world\<lparr>countdown_var := True\<rparr>))"
    "countdown_var (init_world\<lparr>countdown_var := True\<rparr>)"
    by (simp_all add: init_world_def)
  have n: "next_id (init_world\<lparr>countdown_var := True\<rparr>) = 0"
    by (simp add: init_world_def)
  note inst = countdown_reads_settings_at_completion
         [OF h, of silent_env 0 "''Audio''" 24 0 "''Audio''" 24 6 "''Visual''" 24,
          unfolded Let_def n add.left_neutral]
  then obtain w' where
    "fire silent_env 2
          (run_actions silent_env
             [Press_test, Edit_test_vars 0 ''Audio'' 24, Fire 0,
              Edit_test_vars 0 ''Audio'' 24, Fire 1,
              Edit_test_vars 6 ''Visual'' 24] (init_world\<lparr>countdown_var := True\<rparr>)) = Returned w'"
    "emitted
        (emit (Center_text '''') (cancel_timer 2
          (run_actions silent_env
             [Press_test, Edit_test_vars 0 ''Audio'' 24, Fire 0,
              Edit_test_vars 0 ''Audio'' 24, Fire 1,
              Edit_test_vars 6 ''Visual'' 24] (init_world\<lparr>countdown_var := True\<rparr>)))) w'
       = table_order ''Visual'' 6"
    "separation_ms
        (emit (Center_text '''') (cancel_timer 2
          (run_actions silent_env
             [Press_test, Edit_test_vars 0 ''Audio'' 24, Fire 0,
              Edit_test_vars 0 ''Audio'' 24, Fire 1,
              Edit_test_vars 6 ''Visual'' 24] (init_world\<lparr>countdown_var := True\<rparr>)))) w'
       = real_of_int (py_round (round_double (1000 * round_double (\<bar>6\<bar> / max 24 fps_floor))))"
    by blast
  moreover have "py_round (round_double (1000 * round_double (\<bar>6\<bar> / max 24 fps_floor))) = 250"
    by (simp add: fps_floor_value double_eval)
  moreover have "table_order ''Visual'' 6 = [Beep, Flash]"
    by (simp add: table_order_def)
  ultimately show ?thesis
    using h by (simp only: world_of.simps of_int_numeral simp_thms)
qed

section \<open>The repeat timer\<close>

lemmas world_step_defs = adds_no_tick_def new_timers_def emit_def add_timer_def

lemma adds_no_tick_flash_on: "adds_no_tick w (world_of (flash_on w))"
  by (simp add: flash_on_def world_step_defs)

lemma adds_no_tick_flash_off: "adds_no_tick w (world_of (flash_off w))"
  by (simp add: flash_off_def world_step_defs)

lemma adds_no_tick_do_beep: "adds_no_tick w (world_of (do_beep env None None v w))"
  by (simp add: do_beep_default world_step_defs)

lemma adds_no_tick_perform:
  "\<exists>w'. perform_test_events env w = Returned w' \<and> adds_no_tick w w'"
  unfolding perform_test_events_unfold
  by (simp add: flash_on_def do_beep_default world_step_defs)

lemma adds_no_tick_show_step:
  "\<exists>w'. show_step env step i w = Returned w' \<and> adds_no_tick w w'"
proof (cases "i < 3")
  case True
  then show ?thesis
    by (simp add: show_step_digit world_step_defs)
next
  case False
  then have "show_step env step i w = perform_test_events env (emit (Center_text []) w)"
    by (simp add: show_step_def seq_def)
  moreover obtain w' where "perform_test_events env (emit (Center_text []) w) = Returned w'"
    and "adds_no_tick (emit (Center_text []) w) w'"
    using adds_no_tick_perform by blast
  ultimately show ?thesis
    by (auto simp add: world_step_defs)
qed

lemma adds_no_tick_run_test:
  "\<exists>w'. run_test env w = Returned w' \<and> adds_no_tick w w'"
  by (simp add: run_test_def run_with_countdown_def adds_no_tick_perform adds_no_tick_show_step)

lemma adds_no_tick_nudge: "adds_no_tick w (world_of (nudge_delay d w))"
  by (simp add: nudge_delay_def update_labels_returned world_step_defs)

lemma adds_no_tick_slider: "adds_no_tick w (world_of (delay_scale_moved v w))"
  by (simp add: delay_scale_moved_def update_labels_returned world_step_defs)

lemma adds_no_tick_edit:
  "adds_no_tick w (set_test_vars f t p w)"
  "adds_no_tick w (set_base_vars b r w)"
  "adds_no_tick w (set_tone_vars fr tm fm w)"
  "adds_no_tick w (set_countdown_vars en st be w)"
  "adds_no_tick w (set_repeat_interval ms w)"
  by (simp_all add: set_test_vars_def set_base_vars_def set_tone_vars_def
        set_countdown_vars_def set_repeat_interval_def world_step_defs)

lemma adds_no_tick_pending:
  assumes "adds_no_tick w w'"
  shows "pending w' = pending w @ new_timers w w'"
proof -
  have "pending w' = take (length (pending w)) (pending w') @ drop (length (pending w)) (pending w')"
    by simp
  with assms show ?thesis
    by (simp add: adds_no_tick_def new_timers_def)
qed

lemma adds_no_tick_keeps:
  assumes a: "adds_no_tick w w'" and n: "no_pending_tick w"
  shows "no_pending_tick w'"
proof -
  from a have "list_all (\<lambda>t. t_cb t \<noteq> Cb_repeat_tick) (new_timers w w')"
    by (simp add: adds_no_tick_def)
  with n show ?thesis
    by (simp add: no_pending_tick_def adds_no_tick_pending [OF a])
qed

lemma find_pending:
  "find (\<lambda>t. t_id t = tid) ts = Some t \<Longrightarrow> t \<in> set ts \<and> t_id t = tid"
  by (induction ts) (auto split: if_splits)

lemma run_callback_no_tick:
  assumes "cb \<noteq> Cb_repeat_tick"
  shows "\<exists>w'. run_callback env cb w = Returned w' \<and> adds_no_tick w w'"
proof (cases cb)
  case Cb_flash_on
  then show ?thesis using adds_no_tick_flash_on [of w] by (simp add: flash_on_def)
next
  case Cb_flash_off
  then show ?thesis using adds_no_tick_flash_off [of w] by (simp add: flash_off_def)
next
  case Cb_do_beep
  then show ?thesis using adds_no_tick_do_beep [of w env "1 / 5"] by (simp add: do_beep_default)
next
  case (Cb_show_step step i)
  then show ?thesis using adds_no_tick_show_step [of env step i w] by simp
next
  case Cb_repeat_tick
  with assms show ?thesis by simp
qed

lemma count_without_nth:
  assumes "i < length xs"
  shows "count_list (take i xs @ drop (Suc i) xs) z + (if xs ! i = z then 1 else 0)
         = count_list xs z"
proof -
  have "count_list xs z = count_list (take i xs @ xs ! i # drop (Suc i) xs) z"
    using assms by (simp add: id_take_nth_drop [symmetric])
  then show ?thesis by simp
qed

lemma count_with_update:
  assumes "i < length xs"
  shows "count_list (xs[i := y]) z + (if xs ! i = z then 1 else 0)
         = count_list xs z + (if y = z then 1 else 0)"
proof -
  have "count_list xs z = count_list (take i xs @ xs ! i # drop (Suc i) xs) z"
    using assms by (simp add: id_take_nth_drop [symmetric])
  moreover have "xs[i := y] = take i xs @ y # drop (Suc i) xs"
    using assms by (rule upd_conv_take_nth_drop)
  ultimately show ?thesis by simp
qed

lemma arm_repeat_timer_fields:
  "running_repeat (arm_repeat_timer w) = running_repeat w"
  "tick_threads (arm_repeat_timer w) = tick_threads w"
  by (simp_all add: arm_repeat_timer_def Let_def add_timer_def emit_def)

lemma tick_step_off:
  assumes off: "\<not> running_repeat w"
  shows "\<not> running_repeat (tick_step env i w)"
    and "count_list (tick_threads (tick_step env i w)) At_test
           + (if runs_test (Tick_step i) w then 1 else 0)
         \<le> count_list (tick_threads w) At_test"
    and "count_list (tick_threads (tick_step env i w)) At_arm
           + (if arms_timer (Tick_step i) w then 1 else 0)
         \<le> count_list (tick_threads w) At_arm"
proof -
  obtain w1 where t: "run_test env w = Returned w1" and a: "adds_no_tick w w1"
    using adds_no_tick_run_test by blast
  from a have f: "running_repeat w1 = running_repeat w" "tick_threads w1 = tick_threads w"
    by (simp_all add: adds_no_tick_def)
  show "\<not> running_repeat (tick_step env i w)"
    using off t f
    by (simp add: tick_step_def end_thread_def move_thread_def arm_repeat_timer_fields
          split: tick_pc.split)
  show "count_list (tick_threads (tick_step env i w)) At_test
           + (if runs_test (Tick_step i) w then 1 else 0)
         \<le> count_list (tick_threads w) At_test"
  proof (cases "i < length (tick_threads w)")
    case False
    then show ?thesis by (simp add: tick_step_def)
  next
    case True
    from count_without_nth [OF True, of At_test] count_with_update [OF True, of At_reschedule At_test]
    show ?thesis
      using True off t f
      by (cases "tick_threads w ! i")
         (simp_all add: tick_step_def end_thread_def move_thread_def arm_repeat_timer_fields)
  qed
  show "count_list (tick_threads (tick_step env i w)) At_arm
           + (if arms_timer (Tick_step i) w then 1 else 0)
         \<le> count_list (tick_threads w) At_arm"
  proof (cases "i < length (tick_threads w)")
    case False
    then show ?thesis by (simp add: tick_step_def)
  next
    case True
    from count_without_nth [OF True, of At_arm] count_with_update [OF True, of At_reschedule At_arm]
    show ?thesis
      using True off t f
      by (cases "tick_threads w ! i")
         (simp_all add: tick_step_def end_thread_def move_thread_def arm_repeat_timer_fields)
  qed
qed

lemma fire_off:
  assumes off: "\<not> running_repeat w"
  shows "\<exists>w'. fire env tid w = Returned w' \<and> \<not> running_repeat w'
           \<and> count_list (tick_threads w') At_test = count_list (tick_threads w) At_test
           \<and> count_list (tick_threads w') At_arm = count_list (tick_threads w) At_arm"
proof (cases "find (\<lambda>t. t_id t = tid) (pending w)")
  case None
  with off show ?thesis by (simp add: fire_def)
next
  case (Some t)
  show ?thesis
  proof (cases "t_cb t = Cb_repeat_tick")
    case True
    with Some off show ?thesis
      by (simp add: fire_def cancel_timer_def)
  next
    case False
    from run_callback_no_tick [OF False]
    obtain w' where "run_callback env (t_cb t) (cancel_timer tid w) = Returned w'"
      and "adds_no_tick (cancel_timer tid w) w'"
      by blast
    with Some off show ?thesis
      by (simp add: fire_def adds_no_tick_def cancel_timer_def)
  qed
qed

lemma do_action_off:
  assumes off: "\<not> running_repeat w" and a: "a \<noteq> Click_repeat"
  shows "\<not> running_repeat (world_of (do_action env a w))"
    and "count_list (tick_threads (world_of (do_action env a w))) At_test
           + (if runs_test a w then 1 else 0)
         \<le> count_list (tick_threads w) At_test"
    and "count_list (tick_threads (world_of (do_action env a w))) At_arm
           + (if arms_timer a w then 1 else 0)
         \<le> count_list (tick_threads w) At_arm"
proof -
  obtain w1 where t: "run_test env w = Returned w1" and t': "adds_no_tick w w1"
    using adds_no_tick_run_test by blast
  obtain w2 where f: "\<And>tid. a = Fire tid \<Longrightarrow> fire env tid w = Returned (w2 tid)
           \<and> \<not> running_repeat (w2 tid)
           \<and> count_list (tick_threads (w2 tid)) At_test = count_list (tick_threads w) At_test
           \<and> count_list (tick_threads (w2 tid)) At_arm = count_list (tick_threads w) At_arm"
    using fire_off [OF off, of env] by metis
  note n = adds_no_tick_nudge [of w] adds_no_tick_slider [of w] adds_no_tick_edit [of w]
  show "\<not> running_repeat (world_of (do_action env a w))"
    using off a t t' f n tick_step_off(1) [OF off]
    by (cases a) (simp_all add: adds_no_tick_def)
  show "count_list (tick_threads (world_of (do_action env a w))) At_test
           + (if runs_test a w then 1 else 0)
         \<le> count_list (tick_threads w) At_test"
    using off a t t' f n tick_step_off(2) [OF off]
    by (cases a) (simp_all add: adds_no_tick_def)
  show "count_list (tick_threads (world_of (do_action env a w))) At_arm
           + (if arms_timer a w then 1 else 0)
         \<le> count_list (tick_threads w) At_arm"
    using off a t t' f n tick_step_off(3) [OF off]
    by (cases a) (simp_all add: adds_no_tick_def)
qed

lemma stays_off:
  assumes "\<not> running_repeat w" and "Click_repeat \<notin> set as"
  shows "\<not> running_repeat (run_actions env as w)
     \<and> count_events runs_test env as w \<le> count_list (tick_threads w) At_test
     \<and> count_events arms_timer env as w \<le> count_list (tick_threads w) At_arm"
  using assms
proof (induction as arbitrary: w)
  case Nil
  then show ?case by simp
next
  case (Cons a as)
  from Cons.prems have a: "a \<noteq> Click_repeat" and as: "Click_repeat \<notin> set as"
    by auto
  note s = do_action_off [OF Cons.prems(1) a, of env]
  from Cons.IH [OF s(1) as] s(2) s(3) show ?case
    by (simp split: if_splits)
qed

lemma fires_tick_none:
  assumes "no_pending_tick w"
  shows "\<not> fires_tick a w"
proof (cases a)
  case (Fire tid)
  show ?thesis
  proof (cases "find (\<lambda>t. t_id t = tid) (pending w)")
    case None
    with Fire show ?thesis by simp
  next
    case (Some t)
    then have "t \<in> set (pending w)" using find_pending by blast
    with assms have "t_cb t \<noteq> Cb_repeat_tick"
      by (simp add: no_pending_tick_def list_all_iff)
    with Fire Some show ?thesis by simp
  qed
qed simp_all

lemma fire_quiet:
  assumes n: "no_pending_tick w" and m: "At_arm \<notin> set (tick_threads w)"
  shows "\<exists>w'. fire env tid w = Returned w' \<and> no_pending_tick w'
           \<and> At_arm \<notin> set (tick_threads w')"
proof (cases "find (\<lambda>t. t_id t = tid) (pending w)")
  case None
  with n m show ?thesis by (simp add: fire_def)
next
  case (Some t)
  then have "t \<in> set (pending w)" using find_pending by blast
  with n have "t_cb t \<noteq> Cb_repeat_tick"
    by (simp add: no_pending_tick_def list_all_iff)
  from run_callback_no_tick [OF this]
  obtain w' where r: "run_callback env (t_cb t) (cancel_timer tid w) = Returned w'"
    and a: "adds_no_tick (cancel_timer tid w) w'"
    by blast
  from n have "no_pending_tick (cancel_timer tid w)"
    by (simp add: no_pending_tick_def cancel_timer_def list_all_iff)
  with a have "no_pending_tick w'"
    by (rule adds_no_tick_keeps)
  moreover from a m have "At_arm \<notin> set (tick_threads w')"
    by (simp add: adds_no_tick_def cancel_timer_def)
  ultimately show ?thesis
    using r Some by (simp add: fire_def)
qed

lemma tick_step_quiet:
  assumes off: "\<not> running_repeat w" and n: "no_pending_tick w"
    and m: "At_arm \<notin> set (tick_threads w)"
  shows "no_pending_tick (tick_step env i w) \<and> At_arm \<notin> set (tick_threads (tick_step env i w))"
proof (cases "i < length (tick_threads w)")
  case False
  with n m show ?thesis by (simp add: tick_step_def)
next
  case True
  obtain w1 where t: "run_test env w = Returned w1" and a: "adds_no_tick w w1"
    using adds_no_tick_run_test by blast
  from a n have n1: "no_pending_tick w1"
    by (rule adds_no_tick_keeps)
  from a have f: "tick_threads w1 = tick_threads w"
    by (simp add: adds_no_tick_def)
  from True m have pc: "tick_threads w ! i \<noteq> At_arm"
    by (metis nth_mem)
  have sub: "set (take i (tick_threads w) @ drop (Suc i) (tick_threads w)) \<subseteq> set (tick_threads w)"
    using set_take_subset [of i "tick_threads w"] set_drop_subset [of "Suc i" "tick_threads w"]
    by auto
  have upd: "set ((tick_threads w)[i := At_reschedule]) \<subseteq> insert At_reschedule (set (tick_threads w))"
    by (rule set_update_subset_insert)
  from pc True off n n1 m t f sub upd show ?thesis
    by (cases "tick_threads w ! i")
       (auto simp add: tick_step_def end_thread_def move_thread_def no_pending_tick_def)
qed

lemma do_action_quiet:
  assumes off: "\<not> running_repeat w" and n: "no_pending_tick w"
    and m: "At_arm \<notin> set (tick_threads w)" and a: "a \<noteq> Click_repeat"
  shows "no_pending_tick (world_of (do_action env a w))
     \<and> At_arm \<notin> set (tick_threads (world_of (do_action env a w)))"
proof -
  have keep: "no_pending_tick w' \<and> At_arm \<notin> set (tick_threads w')"
    if "adds_no_tick w w'" for w'
    using adds_no_tick_keeps [OF that n] that m by (simp add: adds_no_tick_def)
  obtain w1 where t: "run_test env w = Returned w1" and t': "adds_no_tick w w1"
    using adds_no_tick_run_test by blast
  show ?thesis
  proof (cases a)
    case (Fire tid)
    with fire_quiet [OF n m, of env tid] show ?thesis by auto
  next
    case (Tick_step i)
    with tick_step_quiet [OF off n m, of env i] show ?thesis by simp
  next
    case Press_test
    with t keep [OF t'] show ?thesis by simp
  next
    case Click_repeat
    with a show ?thesis by simp
  next
    case (Nudge d)
    with keep [OF adds_no_tick_nudge] show ?thesis by simp
  next
    case (Move_slider v)
    with keep [OF adds_no_tick_slider] show ?thesis by simp
  next
    case (Edit_test_vars f t p)
    with keep [OF adds_no_tick_edit(1)] show ?thesis by simp
  next
    case (Edit_base_vars b r)
    with keep [OF adds_no_tick_edit(2)] show ?thesis by simp
  next
    case (Edit_tone_vars fr tm fm)
    with keep [OF adds_no_tick_edit(3)] show ?thesis by simp
  next
    case (Edit_countdown_vars en st be)
    with keep [OF adds_no_tick_edit(4)] show ?thesis by simp
  next
    case (Edit_repeat_interval ms)
    with keep [OF adds_no_tick_edit(5)] show ?thesis by simp
  qed
qed

lemma stays_quiet:
  assumes "\<not> running_repeat w" and "no_pending_tick w"
    and "At_arm \<notin> set (tick_threads w)" and "Click_repeat \<notin> set as"
  shows "count_events fires_tick env as w = 0 \<and> no_pending_tick (run_actions env as w)"
  using assms
proof (induction as arbitrary: w)
  case Nil
  then show ?case by simp
next
  case (Cons a as)
  from Cons.prems have a: "a \<noteq> Click_repeat" and as: "Click_repeat \<notin> set as"
    by auto
  from do_action_quiet [OF Cons.prems(1,2,3) a, of env]
  have q: "no_pending_tick (world_of (do_action env a w))"
    "At_arm \<notin> set (tick_threads (world_of (do_action env a w)))"
    by simp_all
  have off: "\<not> running_repeat (world_of (do_action env a w))"
    using Cons.prems(1) a by (rule do_action_off(1))
  from Cons.IH [OF off q as] fires_tick_none [OF Cons.prems(2), of a] show ?case
    by simp
qed

lemma click_repeat_off:
  assumes on: "repeat_var w"
  shows "\<exists>w'. click_repeat w = Returned w' \<and> \<not> running_repeat w'
           \<and> tick_threads w' = tick_threads w
           \<and> pending w' = (case repeat_timer w of None \<Rightarrow> pending w
                              | Some tid \<Rightarrow> filter (\<lambda>t. t_id t \<noteq> tid) (pending w))"
  using on
  by (cases "repeat_timer w")
     (simp_all add: click_repeat_def toggle_repeat_def emit_def cancel_timer_def)

lemma cancel_referenced_tick:
  assumes "list_all (\<lambda>t. t_cb t = Cb_repeat_tick \<longrightarrow> repeat_timer w = Some (t_id t)) (pending w)"
  shows "list_all (\<lambda>t. t_cb t \<noteq> Cb_repeat_tick)
           (case repeat_timer w of None \<Rightarrow> pending w
            | Some tid \<Rightarrow> filter (\<lambda>t. t_id t \<noteq> tid) (pending w))"
  using assms by (cases "repeat_timer w") (auto simp add: list_all_iff)

lemma run_test_threads:
  "run_test env (w\<lparr>tick_threads := ths\<rparr>)
   = Returned ((world_of (run_test env w))\<lparr>tick_threads := ths\<rparr>)"
  unfolding run_test_def run_with_countdown_def perform_test_events_unfold
  by (simp add: show_step_digit flash_on_def do_beep_default add_timer_def emit_def
        delay_ms_of_def Let_def)

text \<open>Taken without interruption, the four steps of a tick thread are \<open>_repeat_tick\<close>.\<close>

lemma tick_steps_uninterrupted:
  assumes "tick_threads w = []"
  shows "tick_step env 0 (tick_step env 0 (tick_step env 0 (tick_step env 0
           (world_of (run_callback env Cb_repeat_tick w)))))
         = world_of (repeat_tick env w)"
proof -
  obtain w1 where t: "run_test env w = Returned w1" and a: "adds_no_tick w w1"
    using adds_no_tick_run_test by blast
  from a assms have f: "running_repeat w1 = running_repeat w" "tick_threads w1 = []"
    by (simp_all add: adds_no_tick_def)
  have arm: "(arm_repeat_timer (w1\<lparr>tick_threads := [At_arm]\<rparr>))\<lparr>tick_threads := []\<rparr>
             = arm_repeat_timer w1"
    using f(2) by (simp add: arm_repeat_timer_def Let_def add_timer_def emit_def)
  show ?thesis
  proof (cases "running_repeat w")
    case False
    with assms show ?thesis
      by (simp add: tick_step_def end_thread_def repeat_tick_def)
  next
    case True
    with assms t f arm show ?thesis
      by (simp add: tick_step_def end_thread_def move_thread_def repeat_tick_def
            schedule_next_repeat_def run_test_threads arm_repeat_timer_fields)
  qed
qed

text \<open>
  C7 as stated fails when the click lands inside a tick that is under way. With the tick
  thread past both checks, the click turns the flag off and finds no timer to cancel;
  the thread then creates and starts the next timer, and that tick fires after repeat
  was disabled. With the thread past the first check only, it still calls \<open>run_test\<close>
  after the click.
\<close>

theorem tick_after_disable_counterexample:
  "repeat_var (run_actions silent_env past_both_checks init_world)
   \<and> Click_repeat \<notin> set [Tick_step 0, Fire 2]
   \<and> \<not> running_repeat
         (world_of (click_repeat (run_actions silent_env past_both_checks init_world)))
   \<and> count_events fires_tick silent_env [Tick_step 0, Fire 2]
         (world_of (click_repeat (run_actions silent_env past_both_checks init_world))) = 1
   \<and> repeat_var (run_actions silent_env past_first_check init_world)
   \<and> \<not> running_repeat
         (world_of (click_repeat (run_actions silent_env past_first_check init_world)))
   \<and> count_events runs_test silent_env [Tick_step 0]
         (world_of (click_repeat (run_actions silent_env past_first_check init_world))) = 1"
  by (simp add: past_both_checks_def past_first_check_def init_world_def silent_env_def
        click_repeat_def toggle_repeat_def schedule_next_repeat_def arm_repeat_timer_def
        fire_def cancel_timer_def tick_step_def end_thread_def move_thread_def
        run_test_def perform_test_events_unfold delay_ms_of_def round_double_zero py_round_def
        flash_on_def do_beep_default beep_trace_def play_beep_def emit_def add_timer_def)

text \<open>
  C7, amended. Clicking the box while repeat is enabled turns the flag off and cancels the
  timer that \<open>_repeat_timer\<close> refers to, which is every pending tick when the pending
  ticks are the referenced one. From then on, whatever timers expire, whatever steps the
  tick threads take and whatever else the user does short of clicking the box again, the
  flag stays off, and a tick thread that reads the flag returns without calling
  \<open>run_test\<close> and without creating a timer. Ticks do what they were committed to when
  the click landed and no more: they call \<open>run_test\<close> at most once for each thread that
  had passed the first check, and create a timer at most once for each thread that had
  passed the second. When no pending tick is left and no thread had passed the second
  check, no repeat tick expires any more.
\<close>

theorem disable_stops_ticks:
  assumes on: "repeat_var w" and later: "Click_repeat \<notin> set later"
  shows "\<exists>w_off. click_repeat w = Returned w_off
     \<and> \<not> running_repeat w_off
     \<and> tick_threads w_off = tick_threads w
     \<and> pending w_off = (case repeat_timer w of None \<Rightarrow> pending w
                          | Some tid \<Rightarrow> filter (\<lambda>t. t_id t \<noteq> tid) (pending w))
     \<and> (list_all (\<lambda>t. t_cb t = Cb_repeat_tick \<longrightarrow> repeat_timer w = Some (t_id t)) (pending w)
          \<longrightarrow> no_pending_tick w_off)
     \<and> \<not> running_repeat (run_actions env later w_off)
     \<and> count_events runs_test env later w_off \<le> count_list (tick_threads w) At_test
     \<and> count_events arms_timer env later w_off \<le> count_list (tick_threads w) At_arm
     \<and> (no_pending_tick w_off \<and> At_arm \<notin> set (tick_threads w)
          \<longrightarrow> count_events fires_tick env later w_off = 0
              \<and> no_pending_tick (run_actions env later w_off))
     \<and> (\<not> running_repeat w' \<and> i < length (tick_threads w')
          \<and> tick_threads w' ! i \<in> {At_guard, At_reschedule}
          \<longrightarrow> tick_step env i w' = end_thread i w')
     \<and> (\<not> running_repeat w'
          \<longrightarrow> repeat_tick env w' = Returned w' \<and> schedule_next_repeat w' = Returned w')"
proof -
  from click_repeat_off [OF on]
  obtain w_off where c: "click_repeat w = Returned w_off"
    and off: "\<not> running_repeat w_off"
    and th: "tick_threads w_off = tick_threads w"
    and p: "pending w_off = (case repeat_timer w of None \<Rightarrow> pending w
                          | Some tid \<Rightarrow> filter (\<lambda>t. t_id t \<noteq> tid) (pending w))"
    by blast
  have canc: "list_all (\<lambda>t. t_cb t = Cb_repeat_tick \<longrightarrow> repeat_timer w = Some (t_id t)) (pending w)
          \<longrightarrow> no_pending_tick w_off"
    unfolding no_pending_tick_def p using cancel_referenced_tick [of w] by blast
  note b = stays_off [OF off later, of env, unfolded th]
  have q: "no_pending_tick w_off \<and> At_arm \<notin> set (tick_threads w)
          \<longrightarrow> count_events fires_tick env later w_off = 0
              \<and> no_pending_tick (run_actions env later w_off)"
    using stays_quiet [OF off _ _ later, of env] th by simp
  have g: "\<not> running_repeat w' \<and> i < length (tick_threads w')
          \<and> tick_threads w' ! i \<in> {At_guard, At_reschedule}
          \<longrightarrow> tick_step env i w' = end_thread i w'"
    by (auto simp add: tick_step_def)
  have s: "\<not> running_repeat w'
          \<longrightarrow> repeat_tick env w' = Returned w' \<and> schedule_next_repeat w' = Returned w'"
    by (simp add: repeat_tick_def schedule_next_repeat_def)
  from c off th p canc b q g s show ?thesis
    by blast
qed

theorem disable_stops_ticks_witness:
  "repeat_var (run_actions silent_env [Click_repeat] init_world)
   \<and> Click_repeat \<notin> set [Fire 0, Edit_countdown_vars True 700 True, Press_test, Fire 1]
   \<and> pending (run_actions silent_env [Click_repeat] init_world)
       = [\<lparr>t_id = 0, t_delay = Thread_timer 1, t_cb = Cb_repeat_tick\<rparr>]
   \<and> repeat_timer (run_actions silent_env [Click_repeat] init_world) = Some 0
   \<and> tick_threads (run_actions silent_env [Click_repeat] init_world) = []
   \<and> pending (world_of (click_repeat (run_actions silent_env [Click_repeat] init_world))) = []
   \<and> count_events fires_tick silent_env
        [Fire 0, Edit_countdown_vars True 700 True, Press_test, Fire 1]
        (world_of (click_repeat (run_actions silent_env [Click_repeat] init_world))) = 0
   \<and> count_events runs_test silent_env
        [Fire 0, Edit_countdown_vars True 700 True, Press_test, Fire 1]
        (world_of (click_repeat (run_actions silent_env [Click_repeat] init_world))) = 0"
proof -
  let ?w = "run_actions silent_env [Click_repeat] init_world"
  have on: "repeat_var ?w"
    and p: "pending ?w = [\<lparr>t_id = 0, t_delay = Thread_timer 1, t_cb = Cb_repeat_tick\<rparr>]"
    and r: "repeat_timer ?w = Some 0"
    and t: "tick_threads ?w = []"
    by (simp_all add: click_repeat_def toggle_repeat_def schedule_next_repeat_def
          arm_repeat_timer_def init_world_def emit_def add_timer_def)
  have l: "Click_repeat \<notin> set [Fire 0, Edit_countdown_vars True 700 True, Press_test, Fire 1]"
    by simp
  let ?l = "[Fire 0, Edit_countdown_vars True 700 True, Press_test, Fire 1]"
  from disable_stops_ticks [OF on l, where env = silent_env and w' = init_world and i = 0]
  obtain w_off where c: "click_repeat ?w = Returned w_off"
    and pw: "pending w_off = (case repeat_timer ?w of None \<Rightarrow> pending ?w
                          | Some tid \<Rightarrow> filter (\<lambda>t. t_id t \<noteq> tid) (pending ?w))"
    and tests: "count_events runs_test silent_env ?l w_off \<le> count_list (tick_threads ?w) At_test"
    and q: "no_pending_tick w_off \<and> At_arm \<notin> set (tick_threads ?w)
          \<longrightarrow> count_events fires_tick silent_env ?l w_off = 0
              \<and> no_pending_tick (run_actions silent_env ?l w_off)"
    by blast
  from pw have e: "pending w_off = []"
    unfolding r p by simp
  then have "no_pending_tick w_off"
    by (simp add: no_pending_tick_def)
  with q have "count_events fires_tick silent_env ?l w_off = 0"
    unfolding t by simp
  moreover from tests have "count_events runs_test silent_env ?l w_off = 0"
    unfolding t by simp
  moreover have "world_of (click_repeat ?w) = w_off"
    using c by simp
  ultimately show ?thesis
    using on p r t l e by (simp only: simp_thms)
qed

end
